theory Spec2Isabelle
  imports Main "HOL-Library.Word"
begin

unbundle bit_operations_syntax

section \<open>AJA capture source: data model\<close>

text \<open>
  The development embeds \<^verbatim>\<open>plugins/aja/aja-source.cpp\<close>. \<^verbatim>\<open>ULWord\<close> is a 32-bit unsigned
  integer, so every address computation of the audio ring buffer wraps modulo \<open>2 ^ 32\<close>.
  The enumerations of the NTV2 SDK and of the plugin's own headers are datatypes that name
  the enumerators the source file mentions and keep every other value under a numbered
  constructor.
\<close>

type_synonym ULWord = "32 word"
type_synonym NTV2Channel = nat
type_synonym NTV2AudioSystem = nat
type_synonym NTV2DeviceID = nat

datatype NTV2VideoFormat =
    NTV2_FORMAT_UNKNOWN
  | NTV2_FORMAT_720p_5994
  | NTV2_FORMAT_OTHER nat

datatype NTV2PixelFormat =
    NTV2_FBF_INVALID
  | NTV2_FBF_8BIT_YCBCR
  | NTV2_FBF_24BIT_BGR
  | NTV2_FBF_OTHER nat

datatype NTV2InputSource =
    NTV2_INPUTSOURCE_ANALOG nat
  | NTV2_INPUTSOURCE_HDMI nat
  | NTV2_INPUTSOURCE_SDI nat

datatype NTV2LHIHDMIColorSpace =
    NTV2_LHIHDMIColorSpaceRGB
  | NTV2_LHIHDMIColorSpaceYCbCr
  | NTV2_LHIHDMIColorSpaceOther

datatype NTV2TestPatternSelect =
    NTV2_TestPatt_Black
  | NTV2_TestPatt_Other nat

datatype VPIDSampling =
    VPIDSampling_YUV_422
  | VPIDSampling_GBR_444
  | VPIDSampling_Other nat

datatype IOSelection =
    IOSelection_Invalid
  | IOSelection_SDI1_2
  | IOSelection_SDI1_2_Squares
  | IOSelection_SDI3_4
  | IOSelection_SDI3_4_Squares
  | IOSelection_Other nat

datatype SDITransport =
    SDITransport_Unknown
  | SDITransport_Other nat

datatype SDITransport4K =
    SDITransport4K_Squares
  | SDITransport4K_TwoSampleInterleave
  | SDITransport4K_Other nat

text \<open>\<^verbatim>\<open>VPIDData\<close>: the two payload words read from a channel and the sampling that
  \<^verbatim>\<open>Parse\<close> derives from them.\<close>

record VPIDData =
  vpidA :: ULWord
  vpidB :: ULWord
  Sampling :: VPIDSampling

type_synonym VPIDDataList = "VPIDData list"

record SourceProps =
  deviceID :: NTV2DeviceID
  ioSelect :: IOSelection
  videoFormat :: NTV2VideoFormat
  pixelFormat :: NTV2PixelFormat
  sdiTransport :: SDITransport
  sdi4kTransport :: SDITransport4K
  vpids :: VPIDDataList
  autoDetect :: bool
  deactivateWhileNotShowing :: bool

text \<open>\<^verbatim>\<open>NTV2FormatDesc\<close>, reduced to the four getters the source file calls. Its
  constructor from a video format and a pixel format (VANC mode off, the default) is the
  parameter \<open>MakeFormatDesc\<close> below.\<close>

record NTV2FormatDesc =
  GetRasterWidth :: nat
  GetRasterHeight :: nat
  GetBytesPerRow :: nat
  GetTotalRasterBytes :: nat

text \<open>
  What the card answers when it is queried. A value of this record is one snapshot of the
  hardware: the capture loop takes a fresh snapshot in every iteration. Variables of this
  type are written \<open>crd\<close> for the source's \<^verbatim>\<open>card\<close>, a name that HOL gives to the
  cardinality of a set.
\<close>

record Card =
  GetModelName :: string
  IsOpen :: bool
  GetDeviceID :: NTV2DeviceID
  GetInputVideoFormat :: "NTV2InputSource \<Rightarrow> bool \<Rightarrow> NTV2VideoFormat"
  Is3GLevelB :: "NTV2Channel \<Rightarrow> bool"
  ReadAudioLastIn :: "NTV2AudioSystem \<Rightarrow> ULWord"
  GetAudioReadOffset :: "NTV2AudioSystem \<Rightarrow> ULWord"
  GetAudioWrapAddress :: "NTV2AudioSystem \<Rightarrow> ULWord"
  ReadSDIInVPID :: "NTV2Channel \<Rightarrow> bool \<times> ULWord \<times> ULWord"
  GetHDMIInputColor :: "NTV2Channel \<Rightarrow> NTV2LHIHDMIColorSpace"

text \<open>
  The helpers and constants that \<^verbatim>\<open>aja-source.cpp\<close> takes from the NTV2 SDK and from the
  plugin's other translation units (\<^verbatim>\<open>aja-common\<close>, \<^verbatim>\<open>aja-props\<close>, \<^verbatim>\<open>aja-vpid-data\<close>).
  Their bodies are not part of the file under verification, so every function below takes
  them as one parameter.
\<close>

record Deps =
  kDefaultAJAPixelFormat :: NTV2PixelFormat
  MakeFormatDesc :: "NTV2VideoFormat \<Rightarrow> NTV2PixelFormat \<Rightarrow> NTV2FormatDesc"
  GetVideoWriteSize :: "NTV2VideoFormat \<Rightarrow> NTV2PixelFormat \<Rightarrow> ULWord"
  HandleSpecialCaseFormats :: "IOSelection \<Rightarrow> NTV2VideoFormat \<Rightarrow> NTV2DeviceID \<Rightarrow> NTV2VideoFormat"
  GetLevelAFormatForLevelBFormat :: "NTV2VideoFormat \<Rightarrow> NTV2VideoFormat"
  IOSelectionToInputSources :: "IOSelection \<Rightarrow> NTV2InputSource list"
  NTV2InputSourceToChannel :: "NTV2InputSource \<Rightarrow> NTV2Channel"
  NTV2DeviceHasBiDirectionalSDI :: "NTV2DeviceID \<Rightarrow> bool"
  NTV2DeviceGetHDMIVersion :: "NTV2DeviceID \<Rightarrow> nat"
  NTV2_IS_4K_VIDEO_FORMAT :: "NTV2VideoFormat \<Rightarrow> bool"
  VPIDParse :: "ULWord \<Rightarrow> ULWord \<Rightarrow> VPIDSampling"
  PropsInitialInputSource :: "SourceProps \<Rightarrow> NTV2InputSource"
  PropsChannel :: "SourceProps \<Rightarrow> NTV2Channel"
  PropsAudioSystem :: "SourceProps \<Rightarrow> NTV2AudioSystem"
  PropsNotEqual :: "SourceProps \<Rightarrow> SourceProps \<Rightarrow> bool"

fun NTV2_INPUT_SOURCE_IS_SDI :: "NTV2InputSource \<Rightarrow> bool" where
  "NTV2_INPUT_SOURCE_IS_SDI (NTV2_INPUTSOURCE_SDI n) = True"
| "NTV2_INPUT_SOURCE_IS_SDI _ = False"

fun NTV2_INPUT_SOURCE_IS_HDMI :: "NTV2InputSource \<Rightarrow> bool" where
  "NTV2_INPUT_SOURCE_IS_HDMI (NTV2_INPUTSOURCE_HDMI n) = True"
| "NTV2_INPUT_SOURCE_IS_HDMI _ = False"

section \<open>What the capture thread does to the outside\<close>

text \<open>
  \<^verbatim>\<open>obs_source_frame2\<close> with the fields the source file sets apart from the timestamp and
  the colour parameters: \<open>data0\<close> is \<^verbatim>\<open>data[0]\<close>, which points either to the pattern
  buffer or to the video buffer, \<open>linesize0\<close> is \<^verbatim>\<open>linesize[0]\<close>, and \<open>format\<close> holds
  the AJA pixel format that \<^verbatim>\<open>AJAPixelFormatToOBSVideoFormat\<close> is applied to.
\<close>

datatype FrameData = TestPatternData | VideoBufferData

record obs_source_frame2 =
  width :: nat
  height :: nat
  format :: NTV2PixelFormat
  data0 :: FrameData
  linesize0 :: nat

text \<open>
  The calls that leave the capture thread, in the order they are made:
  \<^item> \<open>OutputVideo\<close>: \<^verbatim>\<open>obs_source_output_video2\<close>;
  \<^item> \<open>OutputAudio n\<close>: \<^verbatim>\<open>obs_source_output_audio\<close> with \<open>n\<close> frames;
  \<^item> \<open>SourceUpdate\<close>: \<^verbatim>\<open>obs_source_update\<close>, which schedules \<^verbatim>\<open>aja_source_update\<close>;
  \<^item> \<open>DMAReadAudio d a n\<close>: \<open>n\<close> bytes from card address \<open>a\<close> to byte \<open>d\<close> of the audio buffer;
  \<^item> \<open>DMAReadFrame f n\<close>: \<open>n\<close> bytes of card frame \<open>f\<close> to the video buffer;
  \<^item> \<open>SetInputFrame c f\<close>;
  \<^item> \<open>DrawTestPattern\<close>: the pattern buffer is cleared, resized and drawn again;
  \<^item> \<open>AudioOverrun k size bytes\<close>: the log line of detection place \<open>k\<close>.

  Waiting for the field interrupt, sleeping and the other log lines change none of the
  values modelled here and are left out.
\<close>

datatype Event =
    OutputVideo obs_source_frame2
  | OutputAudio ULWord
  | SourceUpdate
  | DMAReadAudio ULWord ULWord ULWord
  | DMAReadFrame ULWord ULWord
  | SetInputFrame NTV2Channel ULWord
  | DrawTestPattern NTV2TestPatternSelect nat nat NTV2PixelFormat
  | AudioOverrun nat ULWord ULWord

section \<open>Offset tracker\<close>

record AudioOffsets =
  currentAddress :: ULWord
  lastAddress :: ULWord
  readOffset :: ULWord
  wrapAddress :: ULWord
  bytesRead :: ULWord

definition AudioOffsets_init :: AudioOffsets where
  "AudioOffsets_init =
     \<lparr>currentAddress = 0, lastAddress = 0, readOffset = 0, wrapAddress = 0, bytesRead = 0\<rparr>"

definition ResetAudioBufferOffsets ::
  "Card option \<Rightarrow> NTV2AudioSystem \<Rightarrow> AudioOffsets \<Rightarrow> AudioOffsets" where
  "ResetAudioBufferOffsets crd audioSystem offsets =
     (case crd of
        None \<Rightarrow> offsets
      | Some c \<Rightarrow>
          (let r = GetAudioReadOffset c audioSystem;
               w = GetAudioWrapAddress c audioSystem
           in \<lparr>currentAddress = 0, lastAddress = r, readOffset = r,
               wrapAddress = w + r, bytesRead = 0\<rparr>))"

text \<open>
  Lines 258 to 337 of \<^verbatim>\<open>CaptureThread\<close>: poll the hardware write cursor, compute the byte
  span, transfer it, and hand one audio packet to the sink unless an overrun was flagged.
  \<open>cap\<close> is \<^verbatim>\<open>mAudioBuffer.GetByteCount()\<close>. The result is the new offsets, the
  \<^verbatim>\<open>audioOverrun\<close> flag and the calls made.
\<close>

definition CaptureAudio ::
  "Card \<Rightarrow> NTV2AudioSystem \<Rightarrow> ULWord \<Rightarrow> AudioOffsets \<Rightarrow> AudioOffsets \<times> bool \<times> Event list" where
  "CaptureAudio crd audioSystem cap offsets0 =
     (let o1 = offsets0\<lparr>currentAddress := ReadAudioLastIn crd audioSystem\<rparr>;
          o2 = o1\<lparr>currentAddress := currentAddress o1 AND NOT 3\<rparr>;
          o3 = o2\<lparr>currentAddress := currentAddress o2 + readOffset o2\<rparr>;
          (o9, audioOverrun, ev) =
            (if currentAddress o3 < lastAddress o3 then
               (let o4 = o3\<lparr>bytesRead := wrapAddress o3 - lastAddress o3\<rparr>;
                    (o5, ov1, ev1) =
                      (if bytesRead o4 > cap
                       then (ResetAudioBufferOffsets (Some crd) audioSystem o4, True,
                             [AudioOverrun 1 cap (bytesRead o4)])
                       else (o4, False, []));
                    (o6, ev2) =
                      (if \<not> ov1
                       then (o5\<lparr>bytesRead := bytesRead o5 + (currentAddress o5 - readOffset o5)\<rparr>,
                             ev1 @ [DMAReadAudio 0 (lastAddress o5) (bytesRead o5),
                                    DMAReadAudio (bytesRead o5) (readOffset o5)
                                      (currentAddress o5 - readOffset o5)])
                       else (o5, ev1))
                in if bytesRead o6 > cap
                   then (ResetAudioBufferOffsets (Some crd) audioSystem o6, True,
                         ev2 @ [AudioOverrun 2 cap (bytesRead o6)])
                   else (o6, ov1, ev2))
             else
               (let o4 = o3\<lparr>bytesRead := currentAddress o3 - lastAddress o3\<rparr>;
                    (o5, ov1, ev1) =
                      (if bytesRead o4 > cap
                       then (ResetAudioBufferOffsets (Some crd) audioSystem o4, True,
                             [AudioOverrun 3 cap (bytesRead o4)])
                       else (o4, False, []))
                in if \<not> ov1
                   then (o5, ov1, ev1 @ [DMAReadAudio 0 (lastAddress o5) (bytesRead o5)])
                   else (o5, ov1, ev1)))
      in if \<not> audioOverrun
         then (o9\<lparr>lastAddress := currentAddress o9\<rparr>, audioOverrun,
               ev @ [OutputAudio (bytesRead o9 div 32)])
         else (o9, audioOverrun, ev))"

section \<open>Capture thread\<close>

record CaptureState =
  offsets :: AudioOffsets
  currentCardFrame :: ULWord
  mTestPattern :: nat
  mVideoBuffer :: ULWord
  mAudioBuffer :: ULWord
  sink :: "Event list"

definition emit :: "Event list \<Rightarrow> CaptureState \<Rightarrow> CaptureState" where
  "emit evs s = s\<lparr>sink := sink s @ evs\<rparr>"

text \<open>
  \<^verbatim>\<open>mTestPattern\<close> is represented by its size, \<^verbatim>\<open>mVideoBuffer\<close> and \<^verbatim>\<open>mAudioBuffer\<close> by
  their byte counts.
\<close>

definition GenerateTestPattern ::
  "Deps \<Rightarrow> NTV2VideoFormat \<Rightarrow> NTV2PixelFormat \<Rightarrow> NTV2TestPatternSelect \<Rightarrow>
   CaptureState \<Rightarrow> CaptureState" where
  "GenerateTestPattern X vf pf ps s =
     (let vid_fmt = (if vf = NTV2_FORMAT_UNKNOWN then NTV2_FORMAT_720p_5994 else vf);
          pix_fmt = (if pf = NTV2_FBF_INVALID then kDefaultAJAPixelFormat X else pf);
          fd = MakeFormatDesc X vid_fmt pix_fmt;
          bufSize = GetTotalRasterBytes fd;
          s1 = (if bufSize \<noteq> mTestPattern s
                then emit [DrawTestPattern ps (GetRasterWidth fd) (GetRasterHeight fd) pix_fmt]
                       (s\<lparr>mTestPattern := bufSize\<rparr>)
                else s)
      in if mTestPattern s1 = 0 then s1
         else emit [OutputVideo \<lparr>width = GetRasterWidth fd, height = GetRasterHeight fd,
                                 format = pix_fmt, data0 = TestPatternData,
                                 linesize0 = GetBytesPerRow fd\<rparr>] s1)"

datatype LoopCtl = Continue | Break

text \<open>One pass through the body of the \<^verbatim>\<open>while\<close> loop, after its condition held.\<close>

definition CaptureIteration ::
  "Deps \<Rightarrow> SourceProps \<Rightarrow> Card \<Rightarrow> CaptureState \<Rightarrow> LoopCtl \<times> CaptureState" where
  "CaptureIteration X sourceProps crd s0 =
     (let inputSource = PropsInitialInputSource X sourceProps;
          channel = PropsChannel X sourceProps;
          audioSystem = PropsAudioSystem X sourceProps
      in if GetModelName crd = ''(Not Found)'' then (Break, emit [SourceUpdate] s0)
         else
           (let video_format = videoFormat sourceProps;
                pixel_format = pixelFormat sourceProps;
                io_selection = ioSelect sourceProps;
                s1 = s0\<lparr>currentCardFrame := currentCardFrame s0 XOR 1\<rparr>;
                newVideoFormat = GetInputVideoFormat crd inputSource (Is3GLevelB crd channel)
            in if newVideoFormat = NTV2_FORMAT_UNKNOWN
               then (Continue, GenerateTestPattern X video_format pixel_format NTV2_TestPatt_Black s1)
               else
                 (let newVideoFormat' =
                        HandleSpecialCaseFormats X io_selection newVideoFormat (deviceID sourceProps)
                  in if autoDetect sourceProps \<and> video_format \<noteq> newVideoFormat'
                     then (Break, emit [SourceUpdate] s1)
                     else
                       (let (offs, audioOverrun, evs) =
                              CaptureAudio crd audioSystem (mAudioBuffer s1) (offsets s1);
                            s2 = emit evs (s1\<lparr>offsets := offs\<rparr>)
                        in if mVideoBuffer s2 = 0 then (Continue, s2)
                           else
                             (let actualVideoFormat =
                                    (if Is3GLevelB crd channel
                                     then GetLevelAFormatForLevelBFormat X video_format
                                     else video_format);
                                  fd = MakeFormatDesc X actualVideoFormat pixel_format
                              in (Continue,
                                  emit [DMAReadFrame (currentCardFrame s2) (mVideoBuffer s2),
                                        OutputVideo \<lparr>width = GetRasterWidth fd,
                                                     height = GetRasterHeight fd,
                                                     format = pixel_format,
                                                     data0 = VideoBufferData,
                                                     linesize0 = GetBytesPerRow fd\<rparr>,
                                        SetInputFrame channel (currentCardFrame s2)] s2))))))"

text \<open>
  The \<^verbatim>\<open>while (ajaSource->IsCapturing())\<close> loop. The hardware and the control thread are the
  loop's environment: element \<open>(capturing, crd)\<close> of the trace is the value of the capturing
  flag read at the head of one iteration and the card's answers during it. The loop has no
  bound of its own, so a trace that ends while the loop is still running gives \<open>None\<close>.
\<close>

fun CaptureLoop ::
  "Deps \<Rightarrow> SourceProps \<Rightarrow> (bool \<times> Card) list \<Rightarrow> CaptureState \<Rightarrow> CaptureState option" where
  "CaptureLoop X sourceProps [] s = None"
| "CaptureLoop X sourceProps ((capturing, crd) # rest) s =
     (if \<not> capturing then Some s
      else (case CaptureIteration X sourceProps crd s of
              (Break, s') \<Rightarrow> Some s'
            | (Continue, s') \<Rightarrow> CaptureLoop X sourceProps rest s'))"

definition ResetVideoBuffer ::
  "Deps \<Rightarrow> NTV2VideoFormat \<Rightarrow> NTV2PixelFormat \<Rightarrow> CaptureState \<Rightarrow> CaptureState" where
  "ResetVideoBuffer X vf pf s =
     (if vf \<noteq> NTV2_FORMAT_UNKNOWN then s\<lparr>mVideoBuffer := GetVideoWriteSize X vf pf\<rparr> else s)"

text \<open>The state in which the thread enters its loop (lines 189 to 213).\<close>

definition CaptureThread_setup ::
  "Deps \<Rightarrow> SourceProps \<Rightarrow> Card \<Rightarrow> CaptureState \<Rightarrow> CaptureState" where
  "CaptureThread_setup X sourceProps crd s0 =
     (let s1 = ResetVideoBuffer X (videoFormat sourceProps) (pixelFormat sourceProps) s0;
          channel = PropsChannel X sourceProps;
          audioSystem = PropsAudioSystem X sourceProps;
          frame = (word_of_nat channel * 2) XOR 1;
          s2 = emit [SetInputFrame channel frame] (s1\<lparr>currentCardFrame := frame\<rparr>)
      in s2\<lparr>offsets := ResetAudioBufferOffsets (Some crd) audioSystem AudioOffsets_init\<rparr>)"

text \<open>
  \<^verbatim>\<open>AJASource::CaptureThread\<close>. A null card ends the thread before the loop. Otherwise the
  loop runs on the trace, and the black test pattern follows its exit.
\<close>

definition CaptureThread ::
  "Deps \<Rightarrow> SourceProps \<Rightarrow> Card option \<Rightarrow> (bool \<times> Card) list \<Rightarrow> CaptureState \<Rightarrow>
   CaptureState option" where
  "CaptureThread X sourceProps crd trace s0 =
     (case crd of
        None \<Rightarrow> Some s0
      | Some c \<Rightarrow>
          (case CaptureLoop X sourceProps trace (CaptureThread_setup X sourceProps c s0) of
             None \<Rightarrow> None
           | Some s \<Rightarrow>
               Some (GenerateTestPattern X (videoFormat sourceProps) (pixelFormat sourceProps)
                       NTV2_TestPatt_Black s)))"

section \<open>Wire-format resolver\<close>

datatype ProbeEvent =
    CardEnableChannel NTV2Channel
  | CardSetSDITransmitEnable NTV2Channel bool
  | CardWaitForInputVerticalInterrupt NTV2Channel
  | CardReadSDIInVPID NTV2Channel
  | CardGetHDMIInputColor NTV2Channel
  | CardGetInputVideoFormat NTV2InputSource
  | LogNoInputSources IOSelection

definition ReadChannelVPIDs :: "Deps \<Rightarrow> Card \<Rightarrow> NTV2Channel \<Rightarrow> bool \<times> VPIDData" where
  "ReadChannelVPIDs X crd channel =
     (let (read_ok, vpid_a, vpid_b) = ReadSDIInVPID crd channel
      in (read_ok, \<lparr>vpidA = vpid_a, vpidB = vpid_b, Sampling = VPIDParse X vpid_a vpid_b\<rparr>))"

text \<open>
  The \<^verbatim>\<open>for (auto &&src : input_srcs)\<close> loop of \<^verbatim>\<open>ReadWireFormats\<close>, threading the pixel
  format and the identifier list, which the source passes by reference.
\<close>

fun ProbeInputSources ::
  "Deps \<Rightarrow> Card \<Rightarrow> NTV2DeviceID \<Rightarrow> NTV2InputSource list \<Rightarrow> NTV2PixelFormat \<Rightarrow> VPIDDataList \<Rightarrow>
   NTV2PixelFormat \<times> VPIDDataList \<times> ProbeEvent list" where
  "ProbeInputSources X crd device_id [] pf vpid_list = (pf, vpid_list, [])"
| "ProbeInputSources X crd device_id (src # rest) pf vpid_list =
     (let channel = NTV2InputSourceToChannel X src;
          (pf1, vpid_list1, ev1) =
            (if NTV2_INPUT_SOURCE_IS_SDI src then
               (let (read_ok, vpid_data) = ReadChannelVPIDs X crd channel
                in (pf,
                    (if read_ok then vpid_list @ [vpid_data] else vpid_list),
                    (if NTV2DeviceHasBiDirectionalSDI X device_id
                     then [CardSetSDITransmitEnable channel False] else []) @
                    [CardWaitForInputVerticalInterrupt channel, CardReadSDIInVPID channel]))
             else if NTV2_INPUT_SOURCE_IS_HDMI src then
               (let hdmi_version = NTV2DeviceGetHDMIVersion X device_id
                in if hdmi_version = 1
                   then (kDefaultAJAPixelFormat X, vpid_list,
                         [CardWaitForInputVerticalInterrupt channel])
                   else
                     (let hdmiInputColor = GetHDMIInputColor crd channel
                      in ((if hdmiInputColor = NTV2_LHIHDMIColorSpaceYCbCr
                           then kDefaultAJAPixelFormat X
                           else if hdmiInputColor = NTV2_LHIHDMIColorSpaceRGB
                           then NTV2_FBF_24BIT_BGR
                           else pf),
                          vpid_list,
                          [CardWaitForInputVerticalInterrupt channel,
                           CardGetHDMIInputColor channel])))
             else (pf, vpid_list, []));
          (pf2, vpid_list2, ev2) = ProbeInputSources X crd device_id rest pf1 vpid_list1
      in (pf2, vpid_list2, CardEnableChannel channel # ev1 @ ev2))"

text \<open>
  \<^verbatim>\<open>AJASource::ReadWireFormats\<close>. The result is the returned flag, the three reference
  parameters as they are left, and the calls made. \<^verbatim>\<open>NTV2InputSourceSet\<close> is an ordered
  set; the list is its iteration order, so its head is \<^verbatim>\<open>*input_srcs.begin()\<close>.
\<close>

definition ReadWireFormats ::
  "Deps \<Rightarrow> Card \<Rightarrow> NTV2DeviceID \<Rightarrow> IOSelection \<Rightarrow> NTV2VideoFormat \<Rightarrow> NTV2PixelFormat \<Rightarrow>
   VPIDDataList \<Rightarrow> bool \<times> NTV2VideoFormat \<times> NTV2PixelFormat \<times> VPIDDataList \<times> ProbeEvent list" where
  "ReadWireFormats X crd device_id io_select vf pf vpid_list =
     (case IOSelectionToInputSources X io_select of
        [] \<Rightarrow> (False, vf, pf, vpid_list, [LogNoInputSources io_select])
      | initial_src # others \<Rightarrow>
          (let (pf1, vpid_list1, ev1) =
                 ProbeInputSources X crd device_id (initial_src # others) pf vpid_list;
               initial_channel = NTV2InputSourceToChannel X initial_src;
               vf1 = GetInputVideoFormat crd initial_src (Is3GLevelB crd initial_channel);
               pf2 = (if NTV2_INPUT_SOURCE_IS_SDI initial_src then
                        (case vpid_list1 of
                           [] \<Rightarrow> pf1
                         | vpid # further \<Rightarrow>
                             if Sampling vpid = VPIDSampling_YUV_422 then NTV2_FBF_8BIT_YCBCR
                             else if Sampling vpid = VPIDSampling_GBR_444 then NTV2_FBF_24BIT_BGR
                             else pf1)
                      else pf1);
               vf2 = HandleSpecialCaseFormats X io_select vf1 device_id
           in (True, vf2, pf2, vpid_list1,
               ev1 @ [CardWaitForInputVerticalInterrupt initial_channel,
                      CardGetInputVideoFormat initial_src])))"

section \<open>Channel leases\<close>

record CardEntry =
  GetCard :: "Card option"
  GetCardIndex :: nat
  leases :: "NTV2Channel \<rightharpoonup> string"

definition SelectionChannels :: "Deps \<Rightarrow> IOSelection \<Rightarrow> NTV2Channel list" where
  "SelectionChannels X io = map (NTV2InputSourceToChannel X) (IOSelectionToInputSources X io)"

text \<open>
  Modelled from the spec: the bodies of \<^verbatim>\<open>CardEntry::ChannelReady\<close>,
  \<^verbatim>\<open>CardEntry::AcquireInputSelection\<close> and \<^verbatim>\<open>CardEntry::ReleaseInputSelection\<close> are in
  \<^verbatim>\<open>aja-card-manager.cpp\<close>, which is not among the sources. The specification gives each
  card entry a table from channel to owning client. A channel is ready for a client when it
  is free or already owned by that client.
\<close>

definition ChannelReady :: "CardEntry \<Rightarrow> NTV2Channel \<Rightarrow> string \<Rightarrow> bool" where
  "ChannelReady e channel owner = (leases e channel = None \<or> leases e channel = Some owner)"

text \<open>
  Modelled from the spec: acquiring a selection that overlaps a channel of a different
  client fails without side effects; otherwise every channel of the selection becomes the
  caller's (idempotent for channels it already owns). The specification gives the device
  identifier no part in the contract.
\<close>

definition AcquireInputSelection ::
  "Deps \<Rightarrow> IOSelection \<Rightarrow> NTV2DeviceID \<Rightarrow> string \<Rightarrow> CardEntry \<Rightarrow> bool \<times> CardEntry" where
  "AcquireInputSelection X io device_id owner e =
     (let chans = SelectionChannels X io
      in if list_all (\<lambda>ch. ChannelReady e ch owner) chans
         then (True, e\<lparr>leases := fold (\<lambda>ch m. m(ch \<mapsto> owner)) chans (leases e)\<rparr>)
         else (False, e))"

text \<open>
  Modelled from the spec: releasing a channel set that the caller does not own leaves the
  table unchanged and reports failure; otherwise the channels of the selection become free.
\<close>

definition ReleaseInputSelection ::
  "Deps \<Rightarrow> IOSelection \<Rightarrow> NTV2DeviceID \<Rightarrow> string \<Rightarrow> CardEntry \<Rightarrow> bool \<times> CardEntry" where
  "ReleaseInputSelection X io device_id owner e =
     (let chans = SelectionChannels X io
      in if list_all (\<lambda>ch. leases e ch = Some owner) chans
         then (True, e\<lparr>leases := fold (\<lambda>ch m. m(ch := None)) chans (leases e)\<rparr>)
         else (False, e))"

section \<open>Session update\<close>

text \<open>
  A list setting holds either the sentinel \<^verbatim>\<open>kAutoDetect\<close> or the integer of an
  enumerator; the source casts the integer to the enumeration and compares it with the
  sentinel.
\<close>

datatype 'a Select = kAutoDetect | Selected 'a

record Settings =
  kUIPropDevice :: string
  kUIPropInput :: IOSelection
  kUIPropVideoFormatSelect :: "NTV2VideoFormat Select"
  kUIPropPixelFormatSelect :: "NTV2PixelFormat Select"
  kUIPropSDITransport :: "SDITransport Select"
  kUIPropSDITransport4K :: SDITransport4K
  kUIPropDeactivateWhenNotShowing :: bool

text \<open>
  The control-thread side of \<^verbatim>\<open>AJASource\<close>. \<^verbatim>\<open>mCaptureThread\<close> is \<open>None\<close> for the null
  pointer and otherwise holds whether the thread is active.
\<close>

record AJASource =
  mCard :: "Card option"
  mSourceName :: string
  mCardID :: string
  mDeviceIndex :: nat
  mIsCapturing :: bool
  mCaptureThread :: "bool option"
  mSourceProps :: SourceProps

text \<open>
  The calls of \<^verbatim>\<open>aja_source_update\<close> that tear down, re-route or start the session, and
  the probing done by \<^verbatim>\<open>ReadWireFormats\<close>.
\<close>

datatype ControlEvent =
    CallDeactivate
  | CallActivate bool
  | ConfigureSourceRoute SourceProps
  | StartSourceAudio SourceProps
  | SetReferenceFreeRun
  | WireProbe ProbeEvent

text \<open>
  \<open>initialized\<close> is the function's \<^verbatim>\<open>static bool\<close>, \<open>cardManager\<close> the entries of
  \<^verbatim>\<open>aja::CardManager\<close> after \<^verbatim>\<open>EnumerateCards\<close>, keyed by card ID.
\<close>

record Plugin =
  initialized :: bool
  cardManager :: "string \<rightharpoonup> CardEntry"
  ajaSource :: AJASource
  calls :: "ControlEvent list"

definition Deactivate :: "Plugin \<Rightarrow> Plugin" where
  "Deactivate w =
     w\<lparr>ajaSource := (ajaSource w)\<lparr>mIsCapturing := False, mCaptureThread := None\<rparr>,
       calls := calls w @ [CallDeactivate]\<rparr>"

definition Activate :: "bool \<Rightarrow> Plugin \<Rightarrow> Plugin" where
  "Activate enable w =
     (let src = ajaSource w;
          src1 = (if mCaptureThread src = None then src\<lparr>mCaptureThread := Some False\<rparr> else src);
          src2 = (if enable then src1\<lparr>mIsCapturing := True, mCaptureThread := Some True\<rparr>
                  else src1)
      in w\<lparr>ajaSource := src2, calls := calls w @ [CallActivate enable]\<rparr>)"

datatype UpdateResult =
    CardEntryNotFound
  | DeviceNotOpen
  | DeviceDisconnected
  | InvalidIOSelection
  | AcquireFailed
  | ReadWireFormatsFailed
  | UnknownFormats
  | Updated

text \<open>Lines 904 to 926: release the channels held on the previous card when the card ID
  changes. The second component is \<^verbatim>\<open>io_select\<close> as it is left.\<close>

definition ReleasePreviousCard ::
  "Deps \<Rightarrow> string \<Rightarrow> string \<Rightarrow> SourceProps \<Rightarrow> IOSelection \<Rightarrow> Plugin \<Rightarrow> Plugin \<times> IOSelection" where
  "ReleasePreviousCard X wantCardID currentCardID curr_props io_select w =
     (if wantCardID \<noteq> currentCardID then
        (case cardManager w currentCardID of
           None \<Rightarrow> (w, io_select)
         | Some prevCardEntry \<Rightarrow>
             (let (released, prev') =
                    ReleaseInputSelection X (ioSelect curr_props) (deviceID curr_props)
                      (mSourceName (ajaSource w)) prevCardEntry;
                  w1 = w\<lparr>cardManager := (cardManager w)(currentCardID \<mapsto> prev')\<rparr>
              in if \<not> released then (w1, io_select)
                 else (w1\<lparr>ajaSource := (ajaSource w1)\<lparr>mCardID := wantCardID\<rparr>\<rparr>,
                       IOSelection_Invalid)))
      else (w, io_select))"

text \<open>Lines 933 to 963: the wanted properties before wire-format resolution.\<close>

definition WantProps :: "Deps \<Rightarrow> Card \<Rightarrow> Settings \<Rightarrow> IOSelection \<Rightarrow> SourceProps" where
  "WantProps X crd settings io_select =
     (let vf_select = kUIPropVideoFormatSelect settings;
          pf_select = kUIPropPixelFormatSelect settings;
          want_props =
            \<lparr>deviceID = GetDeviceID crd,
             ioSelect = io_select,
             videoFormat = (case vf_select of kAutoDetect \<Rightarrow> NTV2_FORMAT_UNKNOWN | Selected v \<Rightarrow> v),
             pixelFormat = (case pf_select of kAutoDetect \<Rightarrow> NTV2_FBF_INVALID | Selected p \<Rightarrow> p),
             sdiTransport = (case kUIPropSDITransport settings of
                               kAutoDetect \<Rightarrow> SDITransport_Unknown | Selected t \<Rightarrow> t),
             sdi4kTransport = kUIPropSDITransport4K settings,
             vpids = [],
             autoDetect = (vf_select = kAutoDetect \<or> pf_select = kAutoDetect),
             deactivateWhileNotShowing = kUIPropDeactivateWhenNotShowing settings\<rparr>
      in if NTV2_IS_4K_VIDEO_FORMAT X (videoFormat want_props) \<and>
            sdi4kTransport want_props = SDITransport4K_Squares
         then (if ioSelect want_props = IOSelection_SDI1_2
               then want_props\<lparr>ioSelect := IOSelection_SDI1_2_Squares\<rparr>
               else if ioSelect want_props = IOSelection_SDI3_4
               then want_props\<lparr>ioSelect := IOSelection_SDI3_4_Squares\<rparr>
               else want_props)
         else want_props)"

definition setCardEntry :: "string \<Rightarrow> CardEntry \<Rightarrow> Plugin \<Rightarrow> Plugin" where
  "setCardEntry cardID e w = w\<lparr>cardManager := (cardManager w)(cardID \<mapsto> e)\<rparr>"

definition logCalls :: "ControlEvent list \<Rightarrow> Plugin \<Rightarrow> Plugin" where
  "logCalls evs w = w\<lparr>calls := calls w @ evs\<rparr>"

text \<open>Lines 1024 to 1035: change the capture format and restart the capture thread.\<close>

definition ApplyProps :: "Deps \<Rightarrow> SourceProps \<Rightarrow> Plugin \<Rightarrow> Plugin" where
  "ApplyProps X want_props w =
     (let w1 = (if \<not> initialized w \<or> PropsNotEqual X want_props (mSourceProps (ajaSource w))
                then (Deactivate (logCalls [ConfigureSourceRoute want_props] w))
                       \<lparr>initialized := True\<rparr>
                else w);
          w2 = w1\<lparr>ajaSource := (ajaSource w1)\<lparr>mSourceProps := want_props\<rparr>\<rparr>;
          w3 = logCalls [StartSourceAudio want_props, SetReferenceFreeRun] w2
      in Activate True w3)"

text \<open>Lines 933 to 1035, entered with the card open and the input selection valid.
  \<open>cardEntry\<close> is the entry of the wanted card.\<close>

definition UpdateOnCard ::
  "Deps \<Rightarrow> Settings \<Rightarrow> Card \<Rightarrow> CardEntry \<Rightarrow> SourceProps \<Rightarrow> IOSelection \<Rightarrow> Plugin \<Rightarrow>
   UpdateResult \<times> Plugin" where
  "UpdateOnCard X settings crd cardEntry curr_props io_select w =
     (let wantCardID = kUIPropDevice settings;
          vf_select = kUIPropVideoFormatSelect settings;
          pf_select = kUIPropPixelFormatSelect settings;
          want_props = WantProps X crd settings io_select;
          w1 = w\<lparr>ajaSource := (ajaSource w)\<lparr>mCardID := wantCardID,
                                             mDeviceIndex := GetCardIndex cardEntry\<rparr>\<rparr>;
          owner = mSourceName (ajaSource w1);
          e1 = (if ioSelect want_props \<noteq> ioSelect curr_props
                then snd (ReleaseInputSelection X (ioSelect curr_props) (deviceID curr_props)
                            owner cardEntry)
                else cardEntry);
          (acquired, e2) =
            AcquireInputSelection X (ioSelect want_props) (deviceID want_props) owner e1;
          w2 = setCardEntry wantCardID e2 w1
      in if \<not> acquired then (AcquireFailed, w2)
         else
           (let (ok, new_vf, new_pf, new_vpids, probes) =
                  ReadWireFormats X crd (deviceID want_props) (ioSelect want_props)
                    (videoFormat want_props) (pixelFormat want_props) (vpids want_props);
                w3 = logCalls (map WireProbe probes) w2;
                released = snd (ReleaseInputSelection X (ioSelect want_props)
                                  (deviceID curr_props) owner e2)
            in if \<not> ok then (ReadWireFormatsFailed, setCardEntry wantCardID released w3)
               else
                 (let want1 = want_props\<lparr>vpids := new_vpids\<rparr>;
                      want2 = (if vf_select = kAutoDetect
                               then want1\<lparr>videoFormat := new_vf\<rparr> else want1);
                      want3 = (if pf_select = kAutoDetect
                               then want2\<lparr>pixelFormat := new_pf\<rparr> else want2)
                  in if videoFormat want3 = NTV2_FORMAT_UNKNOWN \<or>
                        pixelFormat want3 = NTV2_FBF_INVALID
                     then (UnknownFormats, setCardEntry wantCardID released w3)
                     else (Updated, ApplyProps X want3 w3))))"

text \<open>Lines 873 to 877: a wanted card ID other than the session's clears the
  \<^verbatim>\<open>initialized\<close> flag and deactivates the session.\<close>

definition afterCardCheck :: "Settings \<Rightarrow> Plugin \<Rightarrow> Plugin" where
  "afterCardCheck settings w =
     (if kUIPropDevice settings \<noteq> mCardID (ajaSource w)
      then Deactivate (w\<lparr>initialized := False\<rparr>) else w)"

text \<open>\<^verbatim>\<open>aja_source_update\<close> for a non-null plugin instance.\<close>

definition aja_source_update :: "Deps \<Rightarrow> Settings \<Rightarrow> Plugin \<Rightarrow> UpdateResult \<times> Plugin" where
  "aja_source_update X settings w0 =
     (let io_select = kUIPropInput settings;
          wantCardID = kUIPropDevice settings;
          currentCardID = mCardID (ajaSource w0);
          w1 = afterCardCheck settings w0
      in case cardManager w1 wantCardID of
           None \<Rightarrow> (CardEntryNotFound, w1)
         | Some cardEntry \<Rightarrow>
             (case GetCard cardEntry of
                None \<Rightarrow> (DeviceNotOpen, w1)
              | Some crd \<Rightarrow>
                  if \<not> IsOpen crd then (DeviceNotOpen, w1)
                  else if GetModelName crd = ''(Not Found)'' then (DeviceDisconnected, w1)
                  else
                    (let w2 = w1\<lparr>ajaSource := (ajaSource w1)\<lparr>mCard := Some crd\<rparr>\<rparr>;
                         curr_props = mSourceProps (ajaSource w2);
                         (w3, io_select') =
                           ReleasePreviousCard X wantCardID currentCardID curr_props io_select w2
                     in if io_select' = IOSelection_Invalid then (InvalidIOSelection, w3)
                        else UpdateOnCard X settings crd cardEntry curr_props io_select' w3)))"

section \<open>Notions used to state the properties\<close>

text \<open>\<^verbatim>\<open>offsets.currentAddress\<close> after lines 258 to 260: the hardware write cursor, forced
  to DWORD alignment and rebased by the read offset.\<close>

definition PolledAddress :: "Card \<Rightarrow> NTV2AudioSystem \<Rightarrow> AudioOffsets \<Rightarrow> ULWord" where
  "PolledAddress crd audioSystem offs = (ReadAudioLastIn crd audioSystem AND NOT 3) + readOffset offs"

text \<open>The live input format of an iteration, before and after special-case remapping.\<close>

definition ProbedFormat :: "Deps \<Rightarrow> SourceProps \<Rightarrow> Card \<Rightarrow> NTV2VideoFormat" where
  "ProbedFormat X props crd =
     GetInputVideoFormat crd (PropsInitialInputSource X props)
       (Is3GLevelB crd (PropsChannel X props))"

definition LiveFormat :: "Deps \<Rightarrow> SourceProps \<Rightarrow> Card \<Rightarrow> NTV2VideoFormat" where
  "LiveFormat X props crd =
     HandleSpecialCaseFormats X (ioSelect props) (ProbedFormat X props crd) (deviceID props)"

definition DeviceLost :: "Card \<Rightarrow> bool" where
  "DeviceLost crd = (GetModelName crd = ''(Not Found)'')"

text \<open>The device is present, the probed format is known, auto-detect is on and the live
  format is not the configured one.\<close>

definition FormatChangeDetected :: "Deps \<Rightarrow> SourceProps \<Rightarrow> Card \<Rightarrow> bool" where
  "FormatChangeDetected X props crd =
     (\<not> DeviceLost crd \<and> ProbedFormat X props crd \<noteq> NTV2_FORMAT_UNKNOWN \<and>
      autoDetect props \<and> videoFormat props \<noteq> LiveFormat X props crd)"

text \<open>The iteration reaches the audio poll of line 258.\<close>

definition PollsAudio :: "Deps \<Rightarrow> SourceProps \<Rightarrow> Card \<Rightarrow> bool" where
  "PollsAudio X props crd =
     (\<not> DeviceLost crd \<and> ProbedFormat X props crd \<noteq> NTV2_FORMAT_UNKNOWN \<and>
      \<not> (autoDetect props \<and> videoFormat props \<noteq> LiveFormat X props crd))"

text \<open>The three places where a byte span is compared with the capacity \<open>cap\<close> of the
  audio buffer, for the polled address \<open>cur\<close>: (1) and (2) after a wraparound, (3) without.\<close>

definition Overrun1 :: "ULWord \<Rightarrow> ULWord \<Rightarrow> AudioOffsets \<Rightarrow> bool" where
  "Overrun1 cap cur offs = (cur < lastAddress offs \<and> cap < wrapAddress offs - lastAddress offs)"

definition Overrun2 :: "ULWord \<Rightarrow> ULWord \<Rightarrow> AudioOffsets \<Rightarrow> bool" where
  "Overrun2 cap cur offs =
     (cur < lastAddress offs \<and> \<not> cap < wrapAddress offs - lastAddress offs \<and>
      cap < (wrapAddress offs - lastAddress offs) + (cur - readOffset offs))"

definition Overrun3 :: "ULWord \<Rightarrow> ULWord \<Rightarrow> AudioOffsets \<Rightarrow> bool" where
  "Overrun3 cap cur offs = (\<not> cur < lastAddress offs \<and> cap < cur - lastAddress offs)"

definition Overrun :: "ULWord \<Rightarrow> ULWord \<Rightarrow> AudioOffsets \<Rightarrow> bool" where
  "Overrun cap cur offs = (Overrun1 cap cur offs \<or> Overrun2 cap cur offs \<or> Overrun3 cap cur offs)"

definition OffsetsInv :: "AudioOffsets \<Rightarrow> bool" where
  "OffsetsInv offs = (readOffset offs \<le> lastAddress offs \<and> lastAddress offs \<le> wrapAddress offs)"

text \<open>An element of the trace at which the loop leaves: the capturing flag is cleared,
  the device is lost, or a format change is detected.\<close>

definition LoopExits :: "Deps \<Rightarrow> SourceProps \<Rightarrow> bool \<times> Card \<Rightarrow> bool" where
  "LoopExits X props e =
     (\<not> fst e \<or> DeviceLost (snd e) \<or> FormatChangeDetected X props (snd e))"

text \<open>The events of a placeholder emission: drawing the pattern and handing out a frame
  that points to the pattern buffer.\<close>

fun isPlaceholderEvent :: "Event \<Rightarrow> bool" where
  "isPlaceholderEvent (DrawTestPattern ps w h p) = True"
| "isPlaceholderEvent (OutputVideo f) = (data0 f = TestPatternData)"
| "isPlaceholderEvent _ = False"

fun isOutputVideo :: "Event \<Rightarrow> bool" where
  "isOutputVideo (OutputVideo f) = True"
| "isOutputVideo _ = False"

fun isOutputAudio :: "Event \<Rightarrow> bool" where
  "isOutputAudio (OutputAudio n) = True"
| "isOutputAudio _ = False"

text \<open>Whatever an event draws into the pattern buffer is the black pattern.\<close>

fun drawsBlack :: "Event \<Rightarrow> bool" where
  "drawsBlack (DrawTestPattern ps w h p) = (ps = NTV2_TestPatt_Black)"
| "drawsBlack _ = True"

text \<open>The transfers of audio bytes from the card to the audio buffer.\<close>

fun isDMAReadAudio :: "Event \<Rightarrow> bool" where
  "isDMAReadAudio (DMAReadAudio d a n) = True"
| "isDMAReadAudio _ = False"

text \<open>The formats \<^verbatim>\<open>GenerateTestPattern\<close> builds its descriptor from.\<close>

definition PatternVideoFormat :: "NTV2VideoFormat \<Rightarrow> NTV2VideoFormat" where
  "PatternVideoFormat vf = (if vf = NTV2_FORMAT_UNKNOWN then NTV2_FORMAT_720p_5994 else vf)"

definition PatternPixelFormat :: "Deps \<Rightarrow> NTV2PixelFormat \<Rightarrow> NTV2PixelFormat" where
  "PatternPixelFormat X pf = (if pf = NTV2_FBF_INVALID then kDefaultAJAPixelFormat X else pf)"

definition PatternFrame :: "Deps \<Rightarrow> NTV2VideoFormat \<Rightarrow> NTV2PixelFormat \<Rightarrow> obs_source_frame2" where
  "PatternFrame X vf pf =
     (let fd = MakeFormatDesc X (PatternVideoFormat vf) (PatternPixelFormat X pf)
      in \<lparr>width = GetRasterWidth fd, height = GetRasterHeight fd,
          format = PatternPixelFormat X pf, data0 = TestPatternData,
          linesize0 = GetBytesPerRow fd\<rparr>)"


text \<open>Lines 993 to 1009 on card \<open>crd\<close>: whether \<^verbatim>\<open>ReadWireFormats\<close> succeeds on the wanted
  properties, and the wanted properties with the formats it has resolved.\<close>

definition ResolvedProps :: "Deps \<Rightarrow> Settings \<Rightarrow> Card \<Rightarrow> bool \<times> SourceProps" where
  "ResolvedProps X settings crd =
     (let want_props = WantProps X crd settings (kUIPropInput settings);
          (ok, new_vf, new_pf, new_vpids, probes) =
            ReadWireFormats X crd (deviceID want_props) (ioSelect want_props)
              (videoFormat want_props) (pixelFormat want_props) (vpids want_props);
          want1 = want_props\<lparr>vpids := new_vpids\<rparr>;
          want2 = (if kUIPropVideoFormatSelect settings = kAutoDetect
                   then want1\<lparr>videoFormat := new_vf\<rparr> else want1);
          want3 = (if kUIPropPixelFormatSelect settings = kAutoDetect
                   then want2\<lparr>pixelFormat := new_pf\<rparr> else want2)
      in (ok, want3))"

text \<open>Wire-format resolution fails: the wanted input selection has no input sources, or
  the video format is unknown or the pixel format invalid after the resolution.\<close>

definition ResolutionFails :: "Deps \<Rightarrow> Settings \<Rightarrow> Card \<Rightarrow> bool" where
  "ResolutionFails X settings crd =
     (IOSelectionToInputSources X
        (ioSelect (WantProps X crd settings (kUIPropInput settings))) = [] \<or>
      videoFormat (snd (ResolvedProps X settings crd)) = NTV2_FORMAT_UNKNOWN \<or>
      pixelFormat (snd (ResolvedProps X settings crd)) = NTV2_FBF_INVALID)"

text \<open>The entry of the wanted card as the acquisition of line 983 finds it: after the
  release of line 969 when the wanted input selection is not the session's.\<close>

definition EntryAtAcquire :: "Deps \<Rightarrow> Settings \<Rightarrow> Plugin \<Rightarrow> CardEntry \<Rightarrow> Card \<Rightarrow> CardEntry" where
  "EntryAtAcquire X settings w cardEntry crd =
     (let curr_props = mSourceProps (ajaSource w);
          want_props = WantProps X crd settings (kUIPropInput settings)
      in if ioSelect want_props \<noteq> ioSelect curr_props
         then snd (ReleaseInputSelection X (ioSelect curr_props) (deviceID curr_props)
                     (mSourceName (ajaSource w)) cardEntry)
         else cardEntry)"

text \<open>An update call gets as far as wire-format resolution on the entry \<open>cardEntry\<close> and
  its card \<open>crd\<close>: the wanted card has this entry, the card is open and present, the
  channels held on a previous card have not been released (line 923 invalidates the input
  selection after a release, and line 928 then ends the call), the input selection is
  valid, and the wanted selection is acquired.\<close>

definition ReachesResolution :: "Deps \<Rightarrow> Settings \<Rightarrow> Plugin \<Rightarrow> CardEntry \<Rightarrow> Card \<Rightarrow> bool" where
  "ReachesResolution X settings w cardEntry crd =
     (let wantCardID = kUIPropDevice settings;
          currentCardID = mCardID (ajaSource w);
          curr_props = mSourceProps (ajaSource w);
          owner = mSourceName (ajaSource w);
          want_props = WantProps X crd settings (kUIPropInput settings)
      in cardManager w wantCardID = Some cardEntry \<and> GetCard cardEntry = Some crd \<and>
         IsOpen crd \<and> GetModelName crd \<noteq> ''(Not Found)'' \<and>
         (wantCardID = currentCardID \<or>
          (case cardManager w currentCardID of
             None \<Rightarrow> True
           | Some prevCardEntry \<Rightarrow>
               \<not> fst (ReleaseInputSelection X (ioSelect curr_props) (deviceID curr_props)
                        owner prevCardEntry))) \<and>
         kUIPropInput settings \<noteq> IOSelection_Invalid \<and>
         fst (AcquireInputSelection X (ioSelect want_props) (deviceID want_props) owner
                (EntryAtAcquire X settings w cardEntry crd)))"

text \<open>The identifier records that probing a list of connectors appends: one for every
  serial-digital connector whose payload read succeeds, in connector order.\<close>

fun SDIRecords :: "Deps \<Rightarrow> Card \<Rightarrow> NTV2InputSource list \<Rightarrow> VPIDDataList" where
  "SDIRecords X crd [] = []"
| "SDIRecords X crd (src # rest) =
     (if NTV2_INPUT_SOURCE_IS_SDI src \<and>
         fst (ReadChannelVPIDs X crd (NTV2InputSourceToChannel X src))
      then [snd (ReadChannelVPIDs X crd (NTV2InputSourceToChannel X src))]
      else []) @ SDIRecords X crd rest"

section \<open>Concrete inputs\<close>

definition NTV2_AUDIOSIZE_MAX :: ULWord where
  "NTV2_AUDIOSIZE_MAX = 401 * 1024"

definition exampleDesc :: "NTV2VideoFormat \<Rightarrow> NTV2PixelFormat \<Rightarrow> NTV2FormatDesc" where
  "exampleDesc vf pf =
     (case vf of
        NTV2_FORMAT_UNKNOWN \<Rightarrow>
          \<lparr>GetRasterWidth = 0, GetRasterHeight = 0, GetBytesPerRow = 0, GetTotalRasterBytes = 0\<rparr>
      | NTV2_FORMAT_720p_5994 \<Rightarrow>
          \<lparr>GetRasterWidth = 1280, GetRasterHeight = 720, GetBytesPerRow = 2560,
           GetTotalRasterBytes = 1843200\<rparr>
      | NTV2_FORMAT_OTHER n \<Rightarrow>
          \<lparr>GetRasterWidth = 1920, GetRasterHeight = 1080, GetBytesPerRow = 3840,
           GetTotalRasterBytes = 4147200\<rparr>)"

definition exampleSources :: "IOSelection \<Rightarrow> NTV2InputSource list" where
  "exampleSources io =
     (case io of
        IOSelection_Invalid \<Rightarrow> []
      | IOSelection_SDI1_2 \<Rightarrow> [NTV2_INPUTSOURCE_SDI 1, NTV2_INPUTSOURCE_SDI 2]
      | IOSelection_SDI1_2_Squares \<Rightarrow> [NTV2_INPUTSOURCE_SDI 1, NTV2_INPUTSOURCE_SDI 2]
      | IOSelection_SDI3_4 \<Rightarrow> [NTV2_INPUTSOURCE_SDI 3, NTV2_INPUTSOURCE_SDI 4]
      | IOSelection_SDI3_4_Squares \<Rightarrow> [NTV2_INPUTSOURCE_SDI 3, NTV2_INPUTSOURCE_SDI 4]
      | IOSelection_Other n \<Rightarrow> (if n = 0 then [] else [NTV2_INPUTSOURCE_HDMI n]))"

definition exampleChannel :: "NTV2InputSource \<Rightarrow> NTV2Channel" where
  "exampleChannel src =
     (case src of
        NTV2_INPUTSOURCE_ANALOG n \<Rightarrow> 0
      | NTV2_INPUTSOURCE_HDMI n \<Rightarrow> n - 1
      | NTV2_INPUTSOURCE_SDI n \<Rightarrow> n - 1)"

definition exampleSampling :: "ULWord \<Rightarrow> ULWord \<Rightarrow> VPIDSampling" where
  "exampleSampling a b =
     (if a AND 15 = 0 then VPIDSampling_YUV_422
      else if a AND 15 = 2 then VPIDSampling_GBR_444
      else VPIDSampling_Other (unat (a AND 15)))"

definition exampleDeps :: Deps where
  "exampleDeps =
     \<lparr>kDefaultAJAPixelFormat = NTV2_FBF_8BIT_YCBCR,
      MakeFormatDesc = exampleDesc,
      GetVideoWriteSize = (\<lambda>vf pf. word_of_nat (GetTotalRasterBytes (exampleDesc vf pf))),
      HandleSpecialCaseFormats = (\<lambda>io vf dev. vf),
      GetLevelAFormatForLevelBFormat = (\<lambda>vf. vf),
      IOSelectionToInputSources = exampleSources,
      NTV2InputSourceToChannel = exampleChannel,
      NTV2DeviceHasBiDirectionalSDI = (\<lambda>dev. True),
      NTV2DeviceGetHDMIVersion = (\<lambda>dev. 2),
      NTV2_IS_4K_VIDEO_FORMAT = (\<lambda>vf. False),
      VPIDParse = exampleSampling,
      PropsInitialInputSource = (\<lambda>p. NTV2_INPUTSOURCE_SDI 1),
      PropsChannel = (\<lambda>p. 0),
      PropsAudioSystem = (\<lambda>p. 0),
      PropsNotEqual = (\<lambda>p q. p \<noteq> q)\<rparr>"

text \<open>A card that reports the model name, the input format, the audio last-in address,
  the audio read offset and wrap address, and the payload words per channel it is given.\<close>

definition exampleCard ::
  "string \<Rightarrow> NTV2VideoFormat \<Rightarrow> ULWord \<Rightarrow> ULWord \<Rightarrow> ULWord \<Rightarrow> (NTV2Channel \<Rightarrow> bool \<times> ULWord \<times> ULWord) \<Rightarrow>
   Card" where
  "exampleCard name vf lastIn r w vp =
     \<lparr>GetModelName = name, IsOpen = True, GetDeviceID = 1,
      GetInputVideoFormat = (\<lambda>src levelB. vf), Is3GLevelB = (\<lambda>ch. False),
      ReadAudioLastIn = (\<lambda>a. lastIn), GetAudioReadOffset = (\<lambda>a. r),
      GetAudioWrapAddress = (\<lambda>a. w), ReadSDIInVPID = vp,
      GetHDMIInputColor = (\<lambda>ch. NTV2_LHIHDMIColorSpaceRGB)\<rparr>"

definition noVPID :: "NTV2Channel \<Rightarrow> bool \<times> ULWord \<times> ULWord" where
  "noVPID ch = (False, 0, 0)"

text \<open>Payload words whose sampling nibble is 3 (4:2:0) on channel 2 and 0 (4:2:2) on every
  other channel.\<close>

definition mixedVPID :: "NTV2Channel \<Rightarrow> bool \<times> ULWord \<times> ULWord" where
  "mixedVPID ch = (True, (if ch = 2 then 3 else 0), 0)"

definition exampleProps :: "bool \<Rightarrow> SourceProps" where
  "exampleProps auto =
     \<lparr>deviceID = 1, ioSelect = IOSelection_SDI1_2, videoFormat = NTV2_FORMAT_720p_5994,
      pixelFormat = NTV2_FBF_8BIT_YCBCR, sdiTransport = SDITransport_Unknown,
      sdi4kTransport = SDITransport4K_TwoSampleInterleave, vpids = [],
      autoDetect = auto, deactivateWhileNotShowing = False\<rparr>"

definition exampleOffsets :: "ULWord \<Rightarrow> ULWord \<Rightarrow> ULWord \<Rightarrow> AudioOffsets" where
  "exampleOffsets r l w =
     \<lparr>currentAddress = l, lastAddress = l, readOffset = r, wrapAddress = w, bytesRead = 0\<rparr>"

definition exampleState :: "AudioOffsets \<Rightarrow> CaptureState" where
  "exampleState offs =
     \<lparr>offsets = offs, currentCardFrame = 1, mTestPattern = 0, mVideoBuffer = 1843200,
      mAudioBuffer = NTV2_AUDIOSIZE_MAX, sink = []\<rparr>"

definition exampleSource :: "string \<Rightarrow> SourceProps \<Rightarrow> AJASource" where
  "exampleSource cardID props =
     \<lparr>mCard = None, mSourceName = ''AJA Source'', mCardID = cardID, mDeviceIndex = 0,
      mIsCapturing = False, mCaptureThread = Some False, mSourceProps = props\<rparr>"

text \<open>A process with one card, \<open>card0\<close>, on which no channel is leased.\<close>

definition examplePlugin :: "bool \<Rightarrow> Card \<Rightarrow> AJASource \<Rightarrow> Plugin" where
  "examplePlugin init crd src =
     \<lparr>initialized = init,
      cardManager = [''card0'' \<mapsto> \<lparr>GetCard = Some crd, GetCardIndex = 0, leases = Map.empty\<rparr>],
      ajaSource = src, calls = []\<rparr>"

text \<open>A process with one card, \<open>card0\<close>, on which the session holds channels 0 and 1
  and another client holds channel 2.\<close>

definition heldEntry :: "Card \<Rightarrow> CardEntry" where
  "heldEntry crd =
     \<lparr>GetCard = Some crd, GetCardIndex = 0,
      leases = [0 \<mapsto> ''AJA Source'', 1 \<mapsto> ''AJA Source'', 2 \<mapsto> ''Other'']\<rparr>"

definition heldPlugin :: "Card \<Rightarrow> AJASource \<Rightarrow> Plugin" where
  "heldPlugin crd src =
     \<lparr>initialized = True, cardManager = [''card0'' \<mapsto> heldEntry crd],
      ajaSource = src, calls = []\<rparr>"

definition exampleSettings ::
  "NTV2VideoFormat Select \<Rightarrow> NTV2PixelFormat Select \<Rightarrow> Settings" where
  "exampleSettings vf_select pf_select =
     \<lparr>kUIPropDevice = ''card0'', kUIPropInput = IOSelection_SDI1_2,
      kUIPropVideoFormatSelect = vf_select, kUIPropPixelFormatSelect = pf_select,
      kUIPropSDITransport = kAutoDetect,
      kUIPropSDITransport4K = SDITransport4K_TwoSampleInterleave,
      kUIPropDeactivateWhenNotShowing = False\<rparr>"

text \<open>A descriptor table without an entry for the video formats numbered 500 and above:
  their descriptor is the invalid one, with an empty raster. \<open>unlistedProps\<close> is a session
  configured with such a format.\<close>

definition sparseDesc :: "NTV2VideoFormat \<Rightarrow> NTV2PixelFormat \<Rightarrow> NTV2FormatDesc" where
  "sparseDesc vf pf =
     (case vf of
        NTV2_FORMAT_OTHER n \<Rightarrow>
          (if 500 \<le> n
           then \<lparr>GetRasterWidth = 0, GetRasterHeight = 0, GetBytesPerRow = 0,
                 GetTotalRasterBytes = 0\<rparr>
           else exampleDesc vf pf)
      | _ \<Rightarrow> exampleDesc vf pf)"

definition sparseDeps :: Deps where
  "sparseDeps =
     exampleDeps\<lparr>MakeFormatDesc := sparseDesc,
                 GetVideoWriteSize := (\<lambda>vf pf. word_of_nat (GetTotalRasterBytes (sparseDesc vf pf)))\<rparr>"

definition unlistedProps :: SourceProps where
  "unlistedProps = (exampleProps False)\<lparr>videoFormat := NTV2_FORMAT_OTHER 500\<rparr>"

section \<open>The audio poll\<close>

lemma CaptureAudio_cases:
  "CaptureAudio crd a cap offs =
     (let cur = PolledAddress crd a offs;
          first = wrapAddress offs - lastAddress offs;
          second = cur - readOffset offs
      in if cur < lastAddress offs then
           (if cap < first
            then (ResetAudioBufferOffsets (Some crd) a offs, True, [AudioOverrun 1 cap first])
            else if cap < first + second
            then (ResetAudioBufferOffsets (Some crd) a offs, True,
                  [DMAReadAudio 0 (lastAddress offs) first,
                   DMAReadAudio first (readOffset offs) second,
                   AudioOverrun 2 cap (first + second)])
            else (offs\<lparr>currentAddress := cur, lastAddress := cur, bytesRead := first + second\<rparr>,
                  False,
                  [DMAReadAudio 0 (lastAddress offs) first,
                   DMAReadAudio first (readOffset offs) second,
                   OutputAudio ((first + second) div 32)]))
         else
           (if cap < cur - lastAddress offs
            then (ResetAudioBufferOffsets (Some crd) a offs, True,
                  [AudioOverrun 3 cap (cur - lastAddress offs)])
            else (offs\<lparr>currentAddress := cur, lastAddress := cur,
                        bytesRead := cur - lastAddress offs\<rparr>,
                  False,
                  [DMAReadAudio 0 (lastAddress offs) (cur - lastAddress offs),
                   OutputAudio ((cur - lastAddress offs) div 32)])))"
  by (simp add: CaptureAudio_def PolledAddress_def Let_def ResetAudioBufferOffsets_def)

lemma CaptureAudio_overrun:
  assumes "Overrun cap (PolledAddress crd a offs) offs"
  shows "\<exists>evs. CaptureAudio crd a cap offs = (ResetAudioBufferOffsets (Some crd) a offs, True, evs)
           \<and> (\<forall>e \<in> set evs. \<not> isOutputAudio e)"
  using assms
  by (auto simp add: CaptureAudio_cases Overrun_def Overrun1_def Overrun2_def Overrun3_def Let_def)

lemma CaptureAudio_no_overrun:
  assumes "\<not> Overrun cap (PolledAddress crd a offs) offs"
  shows "\<exists>n evs. CaptureAudio crd a cap offs =
            (offs\<lparr>currentAddress := PolledAddress crd a offs,
                  lastAddress := PolledAddress crd a offs, bytesRead := n\<rparr>, False, evs)"
  using assms
  by (auto simp add: CaptureAudio_cases Overrun_def Overrun1_def Overrun2_def Overrun3_def Let_def)

lemma CaptureIteration_polls:
  assumes "PollsAudio X props crd"
  shows "CaptureIteration X props crd s =
     (let s1 = s\<lparr>currentCardFrame := currentCardFrame s XOR 1\<rparr>;
          (offs, audioOverrun, evs) =
             CaptureAudio crd (PropsAudioSystem X props) (mAudioBuffer s) (offsets s);
          s2 = emit evs (s1\<lparr>offsets := offs\<rparr>)
      in if mVideoBuffer s = 0 then (Continue, s2)
         else (Continue,
               emit [DMAReadFrame (currentCardFrame s2) (mVideoBuffer s),
                     OutputVideo
                       (let fd = MakeFormatDesc X
                                   (if Is3GLevelB crd (PropsChannel X props)
                                    then GetLevelAFormatForLevelBFormat X (videoFormat props)
                                    else videoFormat props) (pixelFormat props)
                        in \<lparr>width = GetRasterWidth fd, height = GetRasterHeight fd,
                            format = pixelFormat props, data0 = VideoBufferData,
                            linesize0 = GetBytesPerRow fd\<rparr>),
                     SetInputFrame (PropsChannel X props) (currentCardFrame s2)] s2))"
  using assms
  by (simp add: CaptureIteration_def PollsAudio_def DeviceLost_def ProbedFormat_def
      LiveFormat_def Let_def emit_def split: prod.splits)

lemma Reset_Some:
  "ResetAudioBufferOffsets (Some crd) a offs =
     \<lparr>currentAddress = 0, lastAddress = GetAudioReadOffset crd a,
      readOffset = GetAudioReadOffset crd a,
      wrapAddress = GetAudioWrapAddress crd a + GetAudioReadOffset crd a, bytesRead = 0\<rparr>"
  by (simp add: ResetAudioBufferOffsets_def Let_def)

text \<open>
  C1. In an iteration that polls the audio cursor and finds the byte span above the capacity
  of the audio buffer, at any of the three detection places, the offsets are what
  \<^verbatim>\<open>ResetAudioBufferOffsets\<close> reads from the card in that iteration (read offset, and
  wrap address rebased by it), none of the calls made in the iteration hands an audio packet
  to the sink, and the iteration ends with the loop going on to its next pass.
\<close>

theorem overrun_resets_offsets_and_skips_audio:
  assumes "PollsAudio X props crd"
    and "Overrun (mAudioBuffer s) (PolledAddress crd (PropsAudioSystem X props) (offsets s))
           (offsets s)"
  shows "\<exists>s' evs. CaptureIteration X props crd s = (Continue, s') \<and>
           offsets s' =
             \<lparr>currentAddress = 0,
              lastAddress = GetAudioReadOffset crd (PropsAudioSystem X props),
              readOffset = GetAudioReadOffset crd (PropsAudioSystem X props),
              wrapAddress = GetAudioWrapAddress crd (PropsAudioSystem X props) +
                            GetAudioReadOffset crd (PropsAudioSystem X props),
              bytesRead = 0\<rparr> \<and>
           sink s' = sink s @ evs \<and> (\<forall>e \<in> set evs. \<not> isOutputAudio e) \<and>
           CaptureLoop X props ((True, crd) # rest) s = CaptureLoop X props rest s'"
proof -
  obtain evs where ca: "CaptureAudio crd (PropsAudioSystem X props) (mAudioBuffer s) (offsets s) =
      (ResetAudioBufferOffsets (Some crd) (PropsAudioSystem X props) (offsets s), True, evs)"
    and na: "\<forall>e \<in> set evs. \<not> isOutputAudio e"
    using CaptureAudio_overrun [OF assms(2)] by blast
  show ?thesis
  proof (cases "mVideoBuffer s = 0")
    case True
    then show ?thesis
      using na
      by (simp add: CaptureIteration_polls [OF assms(1)] ca Let_def emit_def Reset_Some)
  next
    case False
    then show ?thesis
      using na
      by (simp add: CaptureIteration_polls [OF assms(1)] ca Let_def emit_def Reset_Some)
  qed
qed

lemma ex_state_simps:
  "offsets (exampleState offs) = offs" "mAudioBuffer (exampleState offs) = NTV2_AUDIOSIZE_MAX"
  "sink (exampleState offs) = []" "mVideoBuffer (exampleState offs) = 1843200"
  by (simp_all add: exampleState_def)

text \<open>An overrun at detection place (1): the cursor wrapped and the tail of the ring
  alone is larger than the buffer.\<close>

theorem overrun_resets_offsets_and_skips_audio_witness:
  "PollsAudio exampleDeps (exampleProps False)
     (exampleCard ''KONA 5'' NTV2_FORMAT_720p_5994 4096 4194304 4177920 noVPID) \<and>
   Overrun (mAudioBuffer (exampleState (exampleOffsets 4194304 7194304 8372224)))
     (PolledAddress (exampleCard ''KONA 5'' NTV2_FORMAT_720p_5994 4096 4194304 4177920 noVPID)
        (PropsAudioSystem exampleDeps (exampleProps False))
        (offsets (exampleState (exampleOffsets 4194304 7194304 8372224))))
     (offsets (exampleState (exampleOffsets 4194304 7194304 8372224))) \<and>
   (\<exists>s'. CaptureIteration exampleDeps (exampleProps False)
            (exampleCard ''KONA 5'' NTV2_FORMAT_720p_5994 4096 4194304 4177920 noVPID)
            (exampleState (exampleOffsets 4194304 7194304 8372224)) = (Continue, s') \<and>
          offsets s' = exampleOffsets 4194304 4194304 8372224\<lparr>currentAddress := 0\<rparr>)"
proof -
  let ?c = "exampleCard ''KONA 5'' NTV2_FORMAT_720p_5994 4096 4194304 4177920 noVPID"
  let ?s = "exampleState (exampleOffsets 4194304 7194304 8372224)"
  have p: "PollsAudio exampleDeps (exampleProps False) ?c"
    by (simp add: PollsAudio_def DeviceLost_def ProbedFormat_def LiveFormat_def exampleDeps_def
        exampleProps_def exampleCard_def)
  have o: "Overrun (mAudioBuffer ?s)
             (PolledAddress ?c (PropsAudioSystem exampleDeps (exampleProps False)) (offsets ?s))
             (offsets ?s)"
    by (simp add: Overrun_def Overrun1_def PolledAddress_def exampleCard_def exampleState_def
        exampleOffsets_def NTV2_AUDIOSIZE_MAX_def)
  have r: "GetAudioReadOffset ?c (PropsAudioSystem exampleDeps (exampleProps False)) = 4194304"
      "GetAudioWrapAddress ?c (PropsAudioSystem exampleDeps (exampleProps False)) = 4177920"
    by (simp_all add: exampleCard_def)
  from overrun_resets_offsets_and_skips_audio [OF p o, of "[]"] p o show ?thesis
    by (auto simp add: r exampleOffsets_def)
qed

text \<open>
  C4 as stated fails where the first segment alone exceeds the capacity: the span that is
  computed and logged is \<open>wrapAddress - lastAddress\<close> (1177920 here), the second addend is
  never added (the sum would be 1182016), and the byte count is left at 0 by the reset.
\<close>

theorem wrapped_span_counterexample:
  "PolledAddress (exampleCard ''KONA 5'' NTV2_FORMAT_720p_5994 4096 4194304 4177920 noVPID) 0
     (exampleOffsets 4194304 7194304 8372224) < lastAddress (exampleOffsets 4194304 7194304 8372224) \<and>
   wrapAddress (exampleOffsets 4194304 7194304 8372224) -
     lastAddress (exampleOffsets 4194304 7194304 8372224) +
     (PolledAddress (exampleCard ''KONA 5'' NTV2_FORMAT_720p_5994 4096 4194304 4177920 noVPID) 0
        (exampleOffsets 4194304 7194304 8372224) -
      readOffset (exampleOffsets 4194304 7194304 8372224)) = 1182016 \<and>
   CaptureAudio (exampleCard ''KONA 5'' NTV2_FORMAT_720p_5994 4096 4194304 4177920 noVPID) 0
     NTV2_AUDIOSIZE_MAX (exampleOffsets 4194304 7194304 8372224) =
     (\<lparr>currentAddress = 0, lastAddress = 4194304, readOffset = 4194304,
       wrapAddress = 8372224, bytesRead = 0\<rparr>,
      True, [AudioOverrun 1 NTV2_AUDIOSIZE_MAX 1177920])"
  by (simp add: CaptureAudio_cases PolledAddress_def exampleCard_def exampleOffsets_def
      NTV2_AUDIOSIZE_MAX_def Reset_Some Let_def)

text \<open>
  C4, amended. After a wraparound (polled address below \<open>lastAddress\<close>) the first segment
  \<open>wrapAddress - lastAddress\<close> is compared with the capacity before anything else is done.
  If it is larger, overrun (1) is logged with that segment, the second addend is never
  added and nothing is transferred. If it fits, the byte span is
  \<open>(wrapAddress - lastAddress) + (currentAddress - readOffset)\<close> in 32-bit arithmetic. When
  that span fits too, it is transferred by two reads, the first segment from \<open>lastAddress\<close>
  to the start of the buffer and the second from \<open>readOffset\<close> behind it, the offsets
  record the span and one audio packet of \<open>span div 32\<close> frames follows. When the span
  does not fit, the offsets are reset, the overrun is flagged and, transfers apart, the
  only call is the log line of overrun (2) with that span.
\<close>

theorem wrapped_span_two_transfers:
  assumes "PolledAddress crd a offs < lastAddress offs"
  shows "(let cur = PolledAddress crd a offs;
              first = wrapAddress offs - lastAddress offs;
              second = cur - readOffset offs;
              span = first + second;
              res = CaptureAudio crd a cap offs
          in if cap < first
             then res = (ResetAudioBufferOffsets (Some crd) a offs, True,
                         [AudioOverrun 1 cap first])
             else if cap < span
             then fst res = ResetAudioBufferOffsets (Some crd) a offs \<and> fst (snd res) \<and>
                  filter (\<lambda>e. \<not> isDMAReadAudio e) (snd (snd res)) = [AudioOverrun 2 cap span]
             else res = (offs\<lparr>currentAddress := cur, lastAddress := cur, bytesRead := span\<rparr>,
                         False,
                         [DMAReadAudio 0 (lastAddress offs) first,
                          DMAReadAudio first (readOffset offs) second,
                          OutputAudio (span div 32)]))"
  using assms by (simp add: CaptureAudio_cases Let_def)

text \<open>A wraparound with 200000 bytes before the wrap address and 8192 after it.\<close>

theorem wrapped_span_two_transfers_witness:
  "PolledAddress (exampleCard ''KONA 5'' NTV2_FORMAT_720p_5994 8192 4194304 4177920 noVPID) 0
     (exampleOffsets 4194304 8172224 8372224) < lastAddress (exampleOffsets 4194304 8172224 8372224) \<and>
   \<not> NTV2_AUDIOSIZE_MAX < wrapAddress (exampleOffsets 4194304 8172224 8372224) -
       lastAddress (exampleOffsets 4194304 8172224 8372224) \<and>
   CaptureAudio (exampleCard ''KONA 5'' NTV2_FORMAT_720p_5994 8192 4194304 4177920 noVPID) 0
     NTV2_AUDIOSIZE_MAX (exampleOffsets 4194304 8172224 8372224) =
     (\<lparr>currentAddress = 4202496, lastAddress = 4202496, readOffset = 4194304,
       wrapAddress = 8372224, bytesRead = 208192\<rparr>,
      False,
      [DMAReadAudio 0 8172224 200000, DMAReadAudio 200000 4194304 8192, OutputAudio 6506])"
proof -
  let ?c = "exampleCard ''KONA 5'' NTV2_FORMAT_720p_5994 8192 4194304 4177920 noVPID"
  let ?o = "exampleOffsets 4194304 8172224 8372224"
  have h1: "PolledAddress ?c 0 ?o < lastAddress ?o"
    by (simp add: PolledAddress_def exampleCard_def exampleOffsets_def)
  have h2: "\<not> NTV2_AUDIOSIZE_MAX < wrapAddress ?o - lastAddress ?o"
    by (simp add: exampleOffsets_def NTV2_AUDIOSIZE_MAX_def)
  from wrapped_span_two_transfers [OF h1, of NTV2_AUDIOSIZE_MAX] h1 h2 show ?thesis
    by (simp add: PolledAddress_def exampleCard_def exampleOffsets_def NTV2_AUDIOSIZE_MAX_def
        Let_def)
qed

lemma polled_in_range:
  fixes r x wrap :: "32 word"
  assumes "r \<le> wrap" and "x < wrap - r"
  shows "r \<le> (x AND NOT 3) + r \<and> (x AND NOT 3) + r \<le> wrap"
proof -
  let ?y = "x AND NOT 3"
  have "?y \<le> x" by (rule word_and_le2)
  then have y: "unat ?y \<le> unat x" by (simp add: word_le_nat_alt)
  have "unat (wrap - r) = unat wrap - unat r" using assms(1) by (simp add: unat_sub)
  then have x: "unat x < unat wrap - unat r" using assms(2) by (simp add: word_less_nat_alt)
  have "unat wrap < 2 ^ 32" using unsigned_less [of wrap, where ?'a = nat] by simp
  then have "unat ?y + unat r < 2 ^ LENGTH(32)" using x y by simp
  then have "unat (?y + r) = unat ?y + unat r" by (simp only: unat_add_lem)
  then show ?thesis using x y by (simp add: word_le_nat_alt)
qed

lemma GenerateTestPattern_offsets [simp]:
  "offsets (GenerateTestPattern X vf pf ps s) = offsets s"
  by (simp add: GenerateTestPattern_def Let_def emit_def)

lemma CaptureIteration_not_polls_offsets:
  "\<not> PollsAudio X props crd \<Longrightarrow> offsets (snd (CaptureIteration X props crd s)) = offsets s"
  by (auto simp add: CaptureIteration_def PollsAudio_def DeviceLost_def ProbedFormat_def
      LiveFormat_def Let_def emit_def)

lemma CaptureIteration_polls_offsets:
  "PollsAudio X props crd \<Longrightarrow>
   offsets (snd (CaptureIteration X props crd s)) =
     fst (CaptureAudio crd (PropsAudioSystem X props) (mAudioBuffer s) (offsets s))"
  by (simp add: CaptureIteration_polls Let_def emit_def split: prod.splits)

lemma Reset_inv:
  "unat (GetAudioReadOffset crd a) + unat (GetAudioWrapAddress crd a) < 2 ^ 32 \<Longrightarrow>
   OffsetsInv (ResetAudioBufferOffsets (Some crd) a offs)"
proof -
  assume "unat (GetAudioReadOffset crd a) + unat (GetAudioWrapAddress crd a) < 2 ^ 32"
  then have "unat (GetAudioWrapAddress crd a) + unat (GetAudioReadOffset crd a) < 2 ^ LENGTH(32)"
    by simp
  then have "unat (GetAudioWrapAddress crd a + GetAudioReadOffset crd a) =
             unat (GetAudioWrapAddress crd a) + unat (GetAudioReadOffset crd a)"
    by (simp only: unat_add_lem)
  then show ?thesis by (simp add: OffsetsInv_def Reset_Some word_le_nat_alt)
qed

lemma setup_offsets:
  "offsets (CaptureThread_setup X props crd s0) =
     ResetAudioBufferOffsets (Some crd) (PropsAudioSystem X props) AudioOffsets_init"
  by (simp add: CaptureThread_setup_def Let_def)

text \<open>
  C8 as stated fails at a reset where read offset plus wrap address passes \<open>2 ^ 32\<close>:
  the rebased wrap address wraps around to 16 and lies below \<open>lastAddress\<close>, although the
  last-in address is below the hardware wrap address.
\<close>

theorem offsets_invariant_counterexample:
  "ReadAudioLastIn (exampleCard ''KONA 5'' NTV2_FORMAT_720p_5994 0 4294967280 32 noVPID) 0
     < GetAudioWrapAddress (exampleCard ''KONA 5'' NTV2_FORMAT_720p_5994 0 4294967280 32 noVPID) 0 \<and>
   offsets (CaptureThread_setup exampleDeps (exampleProps False)
              (exampleCard ''KONA 5'' NTV2_FORMAT_720p_5994 0 4294967280 32 noVPID)
              (exampleState AudioOffsets_init)) =
     \<lparr>currentAddress = 0, lastAddress = 4294967280, readOffset = 4294967280,
      wrapAddress = 16, bytesRead = 0\<rparr> \<and>
   \<not> OffsetsInv (offsets (CaptureThread_setup exampleDeps (exampleProps False)
              (exampleCard ''KONA 5'' NTV2_FORMAT_720p_5994 0 4294967280 32 noVPID)
              (exampleState AudioOffsets_init)))"
  by (simp add: setup_offsets Reset_Some OffsetsInv_def exampleCard_def exampleDeps_def)

text \<open>
  C8, amended. \<open>readOffset \<le> lastAddress \<le> wrapAddress\<close> holds after a reset when the
  card's read offset plus its wrap address stays below \<open>2 ^ 32\<close>; an iteration that polls
  the audio cursor without overrun preserves it when the last-in address is below the
  hardware wrap address (\<open>wrapAddress - readOffset\<close>, as taken at the last reset); an
  iteration with an overrun leaves the offsets reset; an iteration that does not reach the
  audio poll leaves them as they were; and the thread enters its loop with the offsets
  reset.
\<close>

theorem offsets_invariant:
  "(unat (GetAudioReadOffset crd a) + unat (GetAudioWrapAddress crd a) < 2 ^ 32 \<longrightarrow>
      OffsetsInv (ResetAudioBufferOffsets (Some crd) a offs)) \<and>
   (PollsAudio X props crd \<and> OffsetsInv (offsets s) \<and>
    ReadAudioLastIn crd (PropsAudioSystem X props) < wrapAddress (offsets s) - readOffset (offsets s) \<and>
    \<not> Overrun (mAudioBuffer s) (PolledAddress crd (PropsAudioSystem X props) (offsets s)) (offsets s)
      \<longrightarrow> OffsetsInv (offsets (snd (CaptureIteration X props crd s)))) \<and>
   (PollsAudio X props crd \<and>
    Overrun (mAudioBuffer s) (PolledAddress crd (PropsAudioSystem X props) (offsets s)) (offsets s)
      \<longrightarrow> offsets (snd (CaptureIteration X props crd s)) =
          ResetAudioBufferOffsets (Some crd) (PropsAudioSystem X props) (offsets s)) \<and>
   (\<not> PollsAudio X props crd \<longrightarrow> offsets (snd (CaptureIteration X props crd s)) = offsets s) \<and>
   offsets (CaptureThread_setup X props crd s0) =
     ResetAudioBufferOffsets (Some crd) (PropsAudioSystem X props) AudioOffsets_init"
proof (intro conjI impI)
  assume "unat (GetAudioReadOffset crd a) + unat (GetAudioWrapAddress crd a) < 2 ^ 32"
  then show "OffsetsInv (ResetAudioBufferOffsets (Some crd) a offs)" by (rule Reset_inv)
next
  let ?a = "PropsAudioSystem X props"
  assume h: "PollsAudio X props crd \<and> OffsetsInv (offsets s) \<and>
    ReadAudioLastIn crd ?a < wrapAddress (offsets s) - readOffset (offsets s) \<and>
    \<not> Overrun (mAudioBuffer s) (PolledAddress crd ?a (offsets s)) (offsets s)"
  then obtain n evs where ca: "CaptureAudio crd ?a (mAudioBuffer s) (offsets s) =
      ((offsets s)\<lparr>currentAddress := PolledAddress crd ?a (offsets s),
                   lastAddress := PolledAddress crd ?a (offsets s), bytesRead := n\<rparr>, False, evs)"
    using CaptureAudio_no_overrun by blast
  from h have "readOffset (offsets s) \<le> wrapAddress (offsets s)"
    by (auto simp add: OffsetsInv_def)
  with h have "readOffset (offsets s) \<le> PolledAddress crd ?a (offsets s) \<and>
               PolledAddress crd ?a (offsets s) \<le> wrapAddress (offsets s)"
    unfolding PolledAddress_def by (intro polled_in_range) auto
  with h show "OffsetsInv (offsets (snd (CaptureIteration X props crd s)))"
    by (simp add: CaptureIteration_polls_offsets ca OffsetsInv_def)
next
  assume h: "PollsAudio X props crd \<and>
    Overrun (mAudioBuffer s) (PolledAddress crd (PropsAudioSystem X props) (offsets s)) (offsets s)"
  then obtain evs where "CaptureAudio crd (PropsAudioSystem X props) (mAudioBuffer s) (offsets s) =
      (ResetAudioBufferOffsets (Some crd) (PropsAudioSystem X props) (offsets s), True, evs)"
    using CaptureAudio_overrun by blast
  with h show "offsets (snd (CaptureIteration X props crd s)) =
          ResetAudioBufferOffsets (Some crd) (PropsAudioSystem X props) (offsets s)"
    by (simp add: CaptureIteration_polls_offsets)
next
  assume "\<not> PollsAudio X props crd"
  then show "offsets (snd (CaptureIteration X props crd s)) = offsets s"
    by (rule CaptureIteration_not_polls_offsets)
next
  show "offsets (CaptureThread_setup X props crd s0) =
     ResetAudioBufferOffsets (Some crd) (PropsAudioSystem X props) AudioOffsets_init"
    by (rule setup_offsets)
qed

text \<open>The five parts at a card with read offset 4194304 and wrap address 4177920.\<close>

theorem offsets_invariant_witness:
  "unat (GetAudioReadOffset (exampleCard ''KONA 5'' NTV2_FORMAT_720p_5994 8192 4194304 4177920 noVPID) 0) +
   unat (GetAudioWrapAddress (exampleCard ''KONA 5'' NTV2_FORMAT_720p_5994 8192 4194304 4177920 noVPID) 0)
     < 2 ^ 32 \<and>
   OffsetsInv (ResetAudioBufferOffsets
     (Some (exampleCard ''KONA 5'' NTV2_FORMAT_720p_5994 8192 4194304 4177920 noVPID)) 0
     AudioOffsets_init) \<and>
   PollsAudio exampleDeps (exampleProps False)
     (exampleCard ''KONA 5'' NTV2_FORMAT_720p_5994 8192 4194304 4177920 noVPID) \<and>
   OffsetsInv (exampleOffsets 4194304 8172224 8372224) \<and>
   \<not> Overrun NTV2_AUDIOSIZE_MAX 4202496 (exampleOffsets 4194304 8172224 8372224) \<and>
   OffsetsInv (offsets (snd (CaptureIteration exampleDeps (exampleProps False)
     (exampleCard ''KONA 5'' NTV2_FORMAT_720p_5994 8192 4194304 4177920 noVPID)
     (exampleState (exampleOffsets 4194304 8172224 8372224))))) \<and>
   Overrun NTV2_AUDIOSIZE_MAX 4202496 (exampleOffsets 4194304 7194304 8372224) \<and>
   offsets (snd (CaptureIteration exampleDeps (exampleProps False)
     (exampleCard ''KONA 5'' NTV2_FORMAT_720p_5994 8192 4194304 4177920 noVPID)
     (exampleState (exampleOffsets 4194304 7194304 8372224)))) =
     exampleOffsets 4194304 4194304 8372224\<lparr>currentAddress := 0\<rparr> \<and>
   \<not> PollsAudio exampleDeps (exampleProps False)
     (exampleCard ''(Not Found)'' NTV2_FORMAT_720p_5994 8192 4194304 4177920 noVPID) \<and>
   offsets (snd (CaptureIteration exampleDeps (exampleProps False)
     (exampleCard ''(Not Found)'' NTV2_FORMAT_720p_5994 8192 4194304 4177920 noVPID)
     (exampleState (exampleOffsets 4194304 7194304 8372224)))) =
     exampleOffsets 4194304 7194304 8372224"
proof -
  let ?c = "exampleCard ''KONA 5'' NTV2_FORMAT_720p_5994 8192 4194304 4177920 noVPID"
  let ?d = "exampleCard ''(Not Found)'' NTV2_FORMAT_720p_5994 8192 4194304 4177920 noVPID"
  let ?X = exampleDeps and ?P = "exampleProps False"
  let ?s = "exampleState (exampleOffsets 4194304 8172224 8372224)"
  let ?t = "exampleState (exampleOffsets 4194304 7194304 8372224)"
  have a [simp]: "PropsAudioSystem ?X ?P = 0" by (simp add: exampleDeps_def)
  have regs [simp]: "GetAudioReadOffset ?c 0 = 4194304" "GetAudioWrapAddress ?c 0 = 4177920"
    "ReadAudioLastIn ?c 0 = 8192"
    by (simp_all add: exampleCard_def)
  have p: "PollsAudio ?X ?P ?c"
    by (simp add: PollsAudio_def DeviceLost_def ProbedFormat_def LiveFormat_def exampleDeps_def
        exampleProps_def exampleCard_def)
  have np: "\<not> PollsAudio ?X ?P ?d"
    by (simp add: PollsAudio_def DeviceLost_def exampleCard_def)
  have pa [simp]: "PolledAddress ?c 0 (exampleOffsets 4194304 l w) = 4202496" for l w
    by (simp add: PolledAddress_def exampleOffsets_def)
  have i: "OffsetsInv (exampleOffsets 4194304 8172224 8372224)"
    by (simp add: OffsetsInv_def exampleOffsets_def)
  have no: "\<not> Overrun NTV2_AUDIOSIZE_MAX 4202496 (exampleOffsets 4194304 8172224 8372224)"
    by (simp add: Overrun_def Overrun1_def Overrun2_def Overrun3_def exampleOffsets_def
        NTV2_AUDIOSIZE_MAX_def)
  have ov: "Overrun NTV2_AUDIOSIZE_MAX 4202496 (exampleOffsets 4194304 7194304 8372224)"
    by (simp add: Overrun_def Overrun1_def exampleOffsets_def NTV2_AUDIOSIZE_MAX_def)
  have lt: "ReadAudioLastIn ?c 0 < wrapAddress (offsets ?s) - readOffset (offsets ?s)"
    by (simp add: exampleState_def exampleOffsets_def)
  have n: "unat (GetAudioReadOffset ?c 0) + unat (GetAudioWrapAddress ?c 0) < 2 ^ 32"
    by simp
  note t1 = offsets_invariant [where crd = ?c and a = 0 and offs = AudioOffsets_init and X = ?X
      and props = ?P and s = ?s]
  note t2 = offsets_invariant [where crd = ?c and X = ?X and props = ?P and s = ?t]
  note t3 = offsets_invariant [where crd = ?d and X = ?X and props = ?P and s = ?t]
  from t1 n have c1: "OffsetsInv (ResetAudioBufferOffsets (Some ?c) 0 AudioOffsets_init)"
    by blast
  from t1 p i no lt have c2: "OffsetsInv (offsets (snd (CaptureIteration ?X ?P ?c ?s)))"
    by (simp add: ex_state_simps)
  from t2 p ov have "offsets (snd (CaptureIteration ?X ?P ?c ?t)) =
      ResetAudioBufferOffsets (Some ?c) 0 (exampleOffsets 4194304 7194304 8372224)"
    by (simp add: ex_state_simps)
  then have c3: "offsets (snd (CaptureIteration ?X ?P ?c ?t)) =
      exampleOffsets 4194304 4194304 8372224\<lparr>currentAddress := 0\<rparr>"
    by (simp add: Reset_Some exampleOffsets_def)
  from t3 np have c4: "offsets (snd (CaptureIteration ?X ?P ?d ?t)) =
      exampleOffsets 4194304 7194304 8372224"
    by (simp add: ex_state_simps)
  from n c1 p i no c2 ov c3 np c4 show ?thesis by simp
qed

section \<open>Placeholder frames and leaving the loop\<close>

lemma exampleDeps_fields [simp]:
  "kDefaultAJAPixelFormat exampleDeps = NTV2_FBF_8BIT_YCBCR"
  "MakeFormatDesc exampleDeps = exampleDesc"
  "GetVideoWriteSize exampleDeps = (\<lambda>vf pf. word_of_nat (GetTotalRasterBytes (exampleDesc vf pf)))"
  "HandleSpecialCaseFormats exampleDeps = (\<lambda>io vf dev. vf)"
  "GetLevelAFormatForLevelBFormat exampleDeps = (\<lambda>vf. vf)"
  "IOSelectionToInputSources exampleDeps = exampleSources"
  "NTV2InputSourceToChannel exampleDeps = exampleChannel"
  "NTV2DeviceHasBiDirectionalSDI exampleDeps = (\<lambda>dev. True)"
  "NTV2DeviceGetHDMIVersion exampleDeps = (\<lambda>dev. 2)"
  "NTV2_IS_4K_VIDEO_FORMAT exampleDeps = (\<lambda>vf. False)"
  "VPIDParse exampleDeps = exampleSampling"
  "PropsInitialInputSource exampleDeps = (\<lambda>p. NTV2_INPUTSOURCE_SDI 1)"
  "PropsChannel exampleDeps = (\<lambda>p. 0)"
  "PropsAudioSystem exampleDeps = (\<lambda>p. 0)"
  "PropsNotEqual exampleDeps = (\<lambda>p q. p \<noteq> q)"
  by (simp_all add: exampleDeps_def)

lemma exampleCard_fields [simp]:
  "GetModelName (exampleCard name vf lastIn r w vp) = name"
  "IsOpen (exampleCard name vf lastIn r w vp) = True"
  "GetDeviceID (exampleCard name vf lastIn r w vp) = 1"
  "GetInputVideoFormat (exampleCard name vf lastIn r w vp) = (\<lambda>src levelB. vf)"
  "Is3GLevelB (exampleCard name vf lastIn r w vp) = (\<lambda>ch. False)"
  "ReadAudioLastIn (exampleCard name vf lastIn r w vp) = (\<lambda>a. lastIn)"
  "GetAudioReadOffset (exampleCard name vf lastIn r w vp) = (\<lambda>a. r)"
  "GetAudioWrapAddress (exampleCard name vf lastIn r w vp) = (\<lambda>a. w)"
  "ReadSDIInVPID (exampleCard name vf lastIn r w vp) = vp"
  "GetHDMIInputColor (exampleCard name vf lastIn r w vp) = (\<lambda>ch. NTV2_LHIHDMIColorSpaceRGB)"
  by (simp_all add: exampleCard_def)

lemma exampleState_fields [simp]:
  "offsets (exampleState offs) = offs"
  "currentCardFrame (exampleState offs) = 1"
  "mTestPattern (exampleState offs) = 0"
  "mVideoBuffer (exampleState offs) = 1843200"
  "mAudioBuffer (exampleState offs) = NTV2_AUDIOSIZE_MAX"
  "sink (exampleState offs) = []"
  by (simp_all add: exampleState_def)

lemma exampleProps_fields [simp]:
  "deviceID (exampleProps auto) = 1"
  "ioSelect (exampleProps auto) = IOSelection_SDI1_2"
  "videoFormat (exampleProps auto) = NTV2_FORMAT_720p_5994"
  "pixelFormat (exampleProps auto) = NTV2_FBF_8BIT_YCBCR"
  "autoDetect (exampleProps auto) = auto"
  by (simp_all add: exampleProps_def)

lemma GenerateTestPattern_sink:
  "sink (GenerateTestPattern X vf pf ps s) =
     (let fd = MakeFormatDesc X (PatternVideoFormat vf) (PatternPixelFormat X pf)
      in sink s @
         (if GetTotalRasterBytes fd \<noteq> mTestPattern s
          then [DrawTestPattern ps (GetRasterWidth fd) (GetRasterHeight fd)
                  (PatternPixelFormat X pf)]
          else []) @
         (if GetTotalRasterBytes fd = 0 then [] else [OutputVideo (PatternFrame X vf pf)]))"
  by (simp add: GenerateTestPattern_def PatternVideoFormat_def PatternPixelFormat_def
      PatternFrame_def Let_def emit_def)




lemma CaptureAudio_no_update:
  "CaptureAudio crd a cap offs = (offs', ov, evs) \<Longrightarrow> SourceUpdate \<notin> set evs"
  by (auto simp add: CaptureAudio_cases Let_def split: if_splits)

lemma CaptureIteration_break:
  "DeviceLost crd \<or> FormatChangeDetected X props crd \<Longrightarrow>
   \<exists>s1. CaptureIteration X props crd s = (Break, s1) \<and> sink s1 = sink s @ [SourceUpdate] \<and>
        mTestPattern s1 = mTestPattern s"
  by (auto simp add: CaptureIteration_def FormatChangeDetected_def DeviceLost_def
      ProbedFormat_def LiveFormat_def Let_def emit_def)

lemma CaptureIteration_continue:
  "\<not> (DeviceLost crd \<or> FormatChangeDetected X props crd) \<Longrightarrow>
   \<exists>s1 evs. CaptureIteration X props crd s = (Continue, s1) \<and> sink s1 = sink s @ evs \<and>
        SourceUpdate \<notin> set evs"
proof (cases "PollsAudio X props crd")
  case True
  obtain offs' ov evs where ca:
    "CaptureAudio crd (PropsAudioSystem X props) (mAudioBuffer s) (offsets s) = (offs', ov, evs)"
    by (metis prod_cases3)
  then have "SourceUpdate \<notin> set evs" by (rule CaptureAudio_no_update)
  then show ?thesis
    by (simp add: CaptureIteration_polls [OF True] ca Let_def emit_def)
next
  case False
  assume "\<not> (DeviceLost crd \<or> FormatChangeDetected X props crd)"
  with False have u: "\<not> DeviceLost crd" "ProbedFormat X props crd = NTV2_FORMAT_UNKNOWN"
    by (auto simp add: PollsAudio_def FormatChangeDetected_def)
  then show ?thesis
    by (simp add: CaptureIteration_def DeviceLost_def ProbedFormat_def Let_def
        GenerateTestPattern_sink)
qed

lemma CaptureLoop_exits:
  "\<exists>e \<in> set trace. LoopExits X props e \<Longrightarrow> \<exists>s'. CaptureLoop X props trace s = Some s'"
proof (induction trace arbitrary: s)
  case Nil
  then show ?case by simp
next
  case (Cons e trace)
  obtain capturing crd where e: "e = (capturing, crd)" by (cases e)
  show ?case
  proof (cases "LoopExits X props e")
    case True
    then consider "\<not> capturing" | "capturing" "DeviceLost crd \<or> FormatChangeDetected X props crd"
      by (auto simp add: LoopExits_def e)
    then show ?thesis
    proof cases
      case 1
      then show ?thesis by (simp add: e)
    next
      case 2
      then obtain s1 where "CaptureIteration X props crd s = (Break, s1)"
        using CaptureIteration_break by blast
      with 2 show ?thesis by (simp add: e)
    qed
  next
    case False
    then have c: "capturing" "\<not> (DeviceLost crd \<or> FormatChangeDetected X props crd)"
      by (auto simp add: LoopExits_def e)
    then obtain s1 where it: "CaptureIteration X props crd s = (Continue, s1)"
      using CaptureIteration_continue by blast
    from False Cons.prems have "\<exists>e \<in> set trace. LoopExits X props e" by auto
    then obtain s' where "CaptureLoop X props trace s1 = Some s'"
      using Cons.IH by blast
    with c it show ?thesis by (simp add: e)
  qed
qed

lemma CaptureLoop_Some_exits:
  "CaptureLoop X props trace s = Some s' \<Longrightarrow> \<exists>e \<in> set trace. LoopExits X props e"
proof (induction trace arbitrary: s)
  case Nil
  then show ?case by simp
next
  case (Cons e trace)
  obtain capturing crd where e: "e = (capturing, crd)" by (cases e)
  show ?case
  proof (cases "LoopExits X props e")
    case True
    then show ?thesis by simp
  next
    case False
    then have c: "capturing" "\<not> (DeviceLost crd \<or> FormatChangeDetected X props crd)"
      by (auto simp add: LoopExits_def e)
    then obtain s1 where it: "CaptureIteration X props crd s = (Continue, s1)"
      using CaptureIteration_continue by blast
    with c Cons.prems have "CaptureLoop X props trace s1 = Some s'" by (simp add: e)
    then show ?thesis using Cons.IH by auto
  qed
qed

lemma CaptureAudio_draws:
  "CaptureAudio crd a cap offs = (offs', ov, evs) \<Longrightarrow> \<forall>e \<in> set evs. drawsBlack e"
  by (auto simp add: CaptureAudio_cases Let_def split: if_splits)

lemma CaptureIteration_draws:
  "\<exists>evs. sink (snd (CaptureIteration X props crd s)) = sink s @ evs \<and>
         (\<forall>e \<in> set evs. drawsBlack e)"
proof (cases "DeviceLost crd \<or> FormatChangeDetected X props crd")
  case True
  then obtain s1 where "CaptureIteration X props crd s = (Break, s1)"
    "sink s1 = sink s @ [SourceUpdate]"
    using CaptureIteration_break by blast
  then show ?thesis by simp
next
  case False
  show ?thesis
  proof (cases "PollsAudio X props crd")
    case True
    obtain offs' ov evs where ca:
      "CaptureAudio crd (PropsAudioSystem X props) (mAudioBuffer s) (offsets s) = (offs', ov, evs)"
      by (metis prod_cases3)
    then have "\<forall>e \<in> set evs. drawsBlack e" by (rule CaptureAudio_draws)
    then show ?thesis
      by (simp add: CaptureIteration_polls [OF True] ca Let_def emit_def)
  next
    case p: False
    with False have u: "\<not> DeviceLost crd" "ProbedFormat X props crd = NTV2_FORMAT_UNKNOWN"
      by (auto simp add: PollsAudio_def FormatChangeDetected_def)
    then show ?thesis
      by (simp add: CaptureIteration_def DeviceLost_def ProbedFormat_def Let_def
          GenerateTestPattern_sink)
  qed
qed

lemma CaptureLoop_draws:
  "CaptureLoop X props trace s = Some s' \<Longrightarrow>
   \<exists>evs. sink s' = sink s @ evs \<and> (\<forall>e \<in> set evs. drawsBlack e)"
proof (induction trace arbitrary: s)
  case Nil
  then show ?case by simp
next
  case (Cons e trace)
  obtain capturing crd where e: "e = (capturing, crd)" by (cases e)
  show ?case
  proof (cases capturing)
    case False
    with Cons.prems have "s' = s" by (simp add: e)
    then show ?thesis by simp
  next
    case True
    obtain ctl s1 where it: "CaptureIteration X props crd s = (ctl, s1)"
      by (cases "CaptureIteration X props crd s")
    from CaptureIteration_draws [of X props crd s] it
    obtain evs1 where sk: "sink s1 = sink s @ evs1" and b1: "\<forall>e \<in> set evs1. drawsBlack e"
      by auto
    show ?thesis
    proof (cases ctl)
      case Break
      with True it Cons.prems have "s' = s1" by (simp add: e)
      with sk b1 show ?thesis by blast
    next
      case Continue
      with True it Cons.prems have "CaptureLoop X props trace s1 = Some s'" by (simp add: e)
      then obtain evs2 where sk2: "sink s' = sink s1 @ evs2"
        and b2: "\<forall>e \<in> set evs2. drawsBlack e"
        using Cons.IH by blast
      have "sink s' = sink s @ (evs1 @ evs2)" using sk sk2 by simp
      moreover have "\<forall>e \<in> set (evs1 @ evs2). drawsBlack e" using b1 b2 by auto
      ultimately show ?thesis by blast
    qed
  qed
qed

lemma setup_sink_frame:
  "sink (CaptureThread_setup X props crd s0) =
     sink s0 @ [SetInputFrame (PropsChannel X props) ((word_of_nat (PropsChannel X props) * 2) XOR 1)]"
  by (simp add: CaptureThread_setup_def ResetVideoBuffer_def Let_def emit_def)

lemma CaptureIteration_polls_pattern:
  "PollsAudio X props crd \<Longrightarrow>
   mTestPattern (snd (CaptureIteration X props crd s)) = mTestPattern s"
  by (simp add: CaptureIteration_polls Let_def emit_def split_beta)

text \<open>
  C7 as stated fails where the descriptor of the session's formats has an empty raster: the
  capturing flag is found cleared, the loop returns, \<^verbatim>\<open>GenerateTestPattern\<close> finds the
  pattern buffer empty and returns on its error path, and the thread ends having put out no
  frame at all.
\<close>

theorem black_frame_counterexample:
  "LoopExits sparseDeps unlistedProps
     (False, exampleCard ''KONA 5'' NTV2_FORMAT_720p_5994 0 4194304 4177920 noVPID) \<and>
   map_option sink
     (CaptureThread sparseDeps unlistedProps
        (Some (exampleCard ''KONA 5'' NTV2_FORMAT_720p_5994 0 4194304 4177920 noVPID))
        [(False, exampleCard ''KONA 5'' NTV2_FORMAT_720p_5994 0 4194304 4177920 noVPID)]
        (exampleState AudioOffsets_init)) =
     Some [SetInputFrame 0 1]"
  by (simp add: LoopExits_def CaptureThread_def CaptureThread_setup_def ResetVideoBuffer_def
      GenerateTestPattern_def sparseDeps_def sparseDesc_def unlistedProps_def exampleProps_def
      exampleDeps_def emit_def Let_def exampleState_def)

text \<open>
  C7, amended. The loop returns exactly when the environment at some point clears the
  capturing flag, loses the device or shows a format change. Whenever it returns, the thread
  ends with the black placeholder for the session's formats after what the loop left in the
  sink: the pattern buffer is drawn again, in black, when its size is not the raster size of
  the placeholder formats, and exactly one frame, which points to the pattern buffer,
  follows unless that raster is empty; with an empty raster no frame follows. Every pattern
  the thread draws, in the loop or after it, is the black one.
\<close>

theorem black_frame_after_loop_exit:
  "((\<exists>s. CaptureLoop X props trace (CaptureThread_setup X props crd s0) = Some s) \<longleftrightarrow>
    (\<exists>e \<in> set trace. LoopExits X props e)) \<and>
   (\<forall>s. CaptureLoop X props trace (CaptureThread_setup X props crd s0) = Some s \<longrightarrow>
      (\<exists>s'. CaptureThread X props (Some crd) trace s0 = Some s' \<and>
         (let fd = MakeFormatDesc X (PatternVideoFormat (videoFormat props))
                     (PatternPixelFormat X (pixelFormat props))
          in sink s' = sink s @
               (if GetTotalRasterBytes fd \<noteq> mTestPattern s
                then [DrawTestPattern NTV2_TestPatt_Black (GetRasterWidth fd) (GetRasterHeight fd)
                        (PatternPixelFormat X (pixelFormat props))]
                else []) @
               (if GetTotalRasterBytes fd = 0 then []
                else [OutputVideo (PatternFrame X (videoFormat props) (pixelFormat props))])) \<and>
         data0 (PatternFrame X (videoFormat props) (pixelFormat props)) = TestPatternData \<and>
         (\<forall>e \<in> set (drop (length (sink s0)) (sink s')). drawsBlack e)))"
proof (intro conjI allI impI)
  show "(\<exists>s. CaptureLoop X props trace (CaptureThread_setup X props crd s0) = Some s) \<longleftrightarrow>
        (\<exists>e \<in> set trace. LoopExits X props e)"
    using CaptureLoop_exits CaptureLoop_Some_exits by blast
next
  fix s
  assume l: "CaptureLoop X props trace (CaptureThread_setup X props crd s0) = Some s"
  let ?s' = "GenerateTestPattern X (videoFormat props) (pixelFormat props) NTV2_TestPatt_Black s"
  let ?fd = "MakeFormatDesc X (PatternVideoFormat (videoFormat props))
               (PatternPixelFormat X (pixelFormat props))"
  let ?tail = "(if GetTotalRasterBytes ?fd \<noteq> mTestPattern s
                then [DrawTestPattern NTV2_TestPatt_Black (GetRasterWidth ?fd) (GetRasterHeight ?fd)
                        (PatternPixelFormat X (pixelFormat props))]
                else []) @
               (if GetTotalRasterBytes ?fd = 0 then []
                else [OutputVideo (PatternFrame X (videoFormat props) (pixelFormat props))])"
  have t: "CaptureThread X props (Some crd) trace s0 = Some ?s'"
    by (simp add: CaptureThread_def l)
  have d: "data0 (PatternFrame X (videoFormat props) (pixelFormat props)) = TestPatternData"
    by (simp add: PatternFrame_def Let_def)
  have sk: "sink ?s' = sink s @ ?tail"
    by (simp add: GenerateTestPattern_sink Let_def)
  from CaptureLoop_draws [OF l] obtain evs where
    le: "sink s = sink (CaptureThread_setup X props crd s0) @ evs"
    and lb: "\<forall>e \<in> set evs. drawsBlack e"
    by blast
  have all: "sink ?s' = sink s0 @
      (SetInputFrame (PropsChannel X props) ((word_of_nat (PropsChannel X props) * 2) XOR 1) # evs @ ?tail)"
    unfolding sk le setup_sink_frame by simp
  have tb: "\<forall>e \<in> set ?tail. drawsBlack e" by simp
  have b: "\<forall>e \<in> set (drop (length (sink s0)) (sink ?s')). drawsBlack e"
    unfolding all using lb tb by auto
  show "\<exists>s'. CaptureThread X props (Some crd) trace s0 = Some s' \<and>
         (let fd = MakeFormatDesc X (PatternVideoFormat (videoFormat props))
                     (PatternPixelFormat X (pixelFormat props))
          in sink s' = sink s @
               (if GetTotalRasterBytes fd \<noteq> mTestPattern s
                then [DrawTestPattern NTV2_TestPatt_Black (GetRasterWidth fd) (GetRasterHeight fd)
                        (PatternPixelFormat X (pixelFormat props))]
                else []) @
               (if GetTotalRasterBytes fd = 0 then []
                else [OutputVideo (PatternFrame X (videoFormat props) (pixelFormat props))])) \<and>
         data0 (PatternFrame X (videoFormat props) (pixelFormat props)) = TestPatternData \<and>
         (\<forall>e \<in> set (drop (length (sink s0)) (sink s')). drawsBlack e)"
    apply (rule exI [of _ ?s'])
    apply (intro conjI t d b)
    apply (simp only: Let_def sk)
    done
qed

text \<open>
  One captured pass, then the capturing flag is found cleared.
\<close>

theorem black_frame_after_loop_exit_witness:
  "(\<exists>e \<in> set [(True, exampleCard ''KONA 5'' NTV2_FORMAT_720p_5994 8192 4194304 4177920 noVPID),
                 (False, exampleCard ''KONA 5'' NTV2_FORMAT_720p_5994 16384 4194304 4177920 noVPID)].
      LoopExits exampleDeps (exampleProps False) e) \<and>
   (\<exists>s s'.
      CaptureLoop exampleDeps (exampleProps False)
        [(True, exampleCard ''KONA 5'' NTV2_FORMAT_720p_5994 8192 4194304 4177920 noVPID),
         (False, exampleCard ''KONA 5'' NTV2_FORMAT_720p_5994 16384 4194304 4177920 noVPID)]
        (CaptureThread_setup exampleDeps (exampleProps False)
           (exampleCard ''KONA 5'' NTV2_FORMAT_720p_5994 0 4194304 4177920 noVPID)
           (exampleState AudioOffsets_init)) = Some s \<and>
      CaptureThread exampleDeps (exampleProps False)
        (Some (exampleCard ''KONA 5'' NTV2_FORMAT_720p_5994 0 4194304 4177920 noVPID))
        [(True, exampleCard ''KONA 5'' NTV2_FORMAT_720p_5994 8192 4194304 4177920 noVPID),
         (False, exampleCard ''KONA 5'' NTV2_FORMAT_720p_5994 16384 4194304 4177920 noVPID)]
        (exampleState AudioOffsets_init) = Some s' \<and>
      mTestPattern s = 0 \<and>
      sink s' = sink s @
        [DrawTestPattern NTV2_TestPatt_Black 1280 720 NTV2_FBF_8BIT_YCBCR,
         OutputVideo \<lparr>width = 1280, height = 720, format = NTV2_FBF_8BIT_YCBCR,
                      data0 = TestPatternData, linesize0 = 2560\<rparr>])"
proof -
  let ?c1 = "exampleCard ''KONA 5'' NTV2_FORMAT_720p_5994 8192 4194304 4177920 noVPID"
  let ?T = "[(True, ?c1),
             (False, exampleCard ''KONA 5'' NTV2_FORMAT_720p_5994 16384 4194304 4177920 noVPID)]"
  let ?c0 = "exampleCard ''KONA 5'' NTV2_FORMAT_720p_5994 0 4194304 4177920 noVPID"
  let ?s0 = "exampleState AudioOffsets_init"
  let ?su = "CaptureThread_setup exampleDeps (exampleProps False) ?c0 ?s0"
  have h1: "\<exists>e \<in> set ?T. LoopExits exampleDeps (exampleProps False) e"
    by (simp add: LoopExits_def)
  have pp: "PatternVideoFormat (videoFormat (exampleProps False)) = NTV2_FORMAT_720p_5994"
    "PatternPixelFormat exampleDeps (pixelFormat (exampleProps False)) = NTV2_FBF_8BIT_YCBCR"
    by (simp_all add: PatternVideoFormat_def PatternPixelFormat_def)
  have fd: "MakeFormatDesc exampleDeps NTV2_FORMAT_720p_5994 NTV2_FBF_8BIT_YCBCR =
            \<lparr>GetRasterWidth = 1280, GetRasterHeight = 720, GetBytesPerRow = 2560,
             GetTotalRasterBytes = 1843200\<rparr>"
    by (simp add: exampleDesc_def)
  have fr: "PatternFrame exampleDeps (videoFormat (exampleProps False))
              (pixelFormat (exampleProps False)) =
      \<lparr>width = 1280, height = 720, format = NTV2_FBF_8BIT_YCBCR,
       data0 = TestPatternData, linesize0 = 2560\<rparr>"
    unfolding PatternFrame_def pp fd by (simp add: Let_def)
  have p: "PollsAudio exampleDeps (exampleProps False) ?c1"
    by (simp add: PollsAudio_def DeviceLost_def ProbedFormat_def LiveFormat_def)
  note t = black_frame_after_loop_exit [where X = exampleDeps and props = "exampleProps False"
      and trace = ?T and crd = ?c0 and ?s0.0 = ?s0]
  from t [THEN conjunct1] h1 obtain s where l: "CaptureLoop exampleDeps (exampleProps False) ?T ?su = Some s"
    by blast
  have it: "CaptureIteration exampleDeps (exampleProps False) ?c1 ?su =
              (Continue, snd (CaptureIteration exampleDeps (exampleProps False) ?c1 ?su))"
    using CaptureIteration_continue [of ?c1 exampleDeps "exampleProps False" ?su] p
    by (auto simp add: PollsAudio_def FormatChangeDetected_def)
  have "s = snd (CaptureIteration exampleDeps (exampleProps False) ?c1 ?su)"
    using l by (subst (asm) CaptureLoop.simps, subst (asm) it) simp
  then have m: "mTestPattern s = 0"
    by (simp add: CaptureIteration_polls_pattern [OF p] CaptureThread_setup_def
        ResetVideoBuffer_def Let_def emit_def)
  from t [THEN conjunct2, THEN spec, THEN mp, OF l] obtain s' where
    th: "CaptureThread exampleDeps (exampleProps False) (Some ?c0) ?T ?s0 = Some s'"
    and sk: "(let fd = MakeFormatDesc exampleDeps (PatternVideoFormat (videoFormat (exampleProps False)))
                     (PatternPixelFormat exampleDeps (pixelFormat (exampleProps False)))
          in sink s' = sink s @
               (if GetTotalRasterBytes fd \<noteq> mTestPattern s
                then [DrawTestPattern NTV2_TestPatt_Black (GetRasterWidth fd) (GetRasterHeight fd)
                        (PatternPixelFormat exampleDeps (pixelFormat (exampleProps False)))]
                else []) @
               (if GetTotalRasterBytes fd = 0 then []
                else [OutputVideo (PatternFrame exampleDeps (videoFormat (exampleProps False))
                        (pixelFormat (exampleProps False)))]))"
    by blast
  from sk have "sink s' = sink s @
        [DrawTestPattern NTV2_TestPatt_Black 1280 720 NTV2_FBF_8BIT_YCBCR,
         OutputVideo \<lparr>width = 1280, height = 720, format = NTV2_FBF_8BIT_YCBCR,
                      data0 = TestPatternData, linesize0 = 2560\<rparr>]"
    unfolding pp fd fr m by (simp add: Let_def)
  with h1 l th m show ?thesis by blast
qed

lemma CaptureIteration_format_change:
  "FormatChangeDetected X props crd \<Longrightarrow>
   CaptureIteration X props crd s =
     (Break, emit [SourceUpdate] (s\<lparr>currentCardFrame := currentCardFrame s XOR 1\<rparr>))"
  by (simp add: CaptureIteration_def FormatChangeDetected_def DeviceLost_def
      ProbedFormat_def LiveFormat_def Let_def)

lemma CaptureLoop_updates:
  "CaptureLoop X props trace s = Some s' \<Longrightarrow>
   \<exists>evs. sink s' = sink s @ evs \<and>
     (SourceUpdate \<notin> set evs \<or> (\<exists>pre. evs = pre @ [SourceUpdate] \<and> SourceUpdate \<notin> set pre))"
proof (induction trace arbitrary: s)
  case Nil
  then show ?case by simp
next
  case (Cons e trace)
  obtain capturing crd where e: "e = (capturing, crd)" by (cases e)
  show ?case
  proof (cases capturing)
    case False
    with Cons.prems have "s' = s" by (simp add: e)
    then show ?thesis by simp
  next
    case True
    show ?thesis
    proof (cases "DeviceLost crd \<or> FormatChangeDetected X props crd")
      case b: True
      then obtain s1 where it: "CaptureIteration X props crd s = (Break, s1)"
        and sk: "sink s1 = sink s @ [SourceUpdate]"
        using CaptureIteration_break by blast
      with True Cons.prems have "s' = s1" by (simp add: e)
      with sk show ?thesis by simp
    next
      case c: False
      then obtain s1 evs1 where it: "CaptureIteration X props crd s = (Continue, s1)"
        and sk: "sink s1 = sink s @ evs1" and nu: "SourceUpdate \<notin> set evs1"
        using CaptureIteration_continue by blast
      with True Cons.prems have "CaptureLoop X props trace s1 = Some s'" by (simp add: e)
      then obtain evs2 where sk2: "sink s' = sink s1 @ evs2"
        and u2: "SourceUpdate \<notin> set evs2 \<or>
                 (\<exists>pre. evs2 = pre @ [SourceUpdate] \<and> SourceUpdate \<notin> set pre)"
        using Cons.IH by blast
      from u2 show ?thesis
      proof
        assume "SourceUpdate \<notin> set evs2"
        with sk sk2 nu show ?thesis by simp
      next
        assume "\<exists>pre. evs2 = pre @ [SourceUpdate] \<and> SourceUpdate \<notin> set pre"
        then obtain pre where p: "evs2 = pre @ [SourceUpdate]" "SourceUpdate \<notin> set pre" by blast
        have "sink s' = sink s @ (evs1 @ pre) @ [SourceUpdate]"
          using sk sk2 p by simp
        moreover have "SourceUpdate \<notin> set (evs1 @ pre)" using nu p by simp
        ultimately show ?thesis by blast
      qed
    qed
  qed
qed

lemma setup_sink:
  "\<exists>ev. sink (CaptureThread_setup X props crd s0) = sink s0 @ [ev] \<and> ev \<noteq> SourceUpdate"
  by (simp add: CaptureThread_setup_def ResetVideoBuffer_def Let_def emit_def)

lemma GenerateTestPattern_placeholder:
  "\<exists>pat. sink (GenerateTestPattern X vf pf ps s) = sink s @ pat \<and>
         (\<forall>e \<in> set pat. isPlaceholderEvent e)"
  by (simp add: GenerateTestPattern_sink Let_def PatternFrame_def)

text \<open>
  C2, amended. In an iteration where the device is present, the probed format is known,
  auto-detect is on and the remapped live format differs from the configured one, the body
  schedules one reconfiguration and leaves the loop, whatever the rest of the trace is,
  without a DMA transfer, an audio packet or a video frame. In every run of the thread,
  at most one reconfiguration is scheduled, nothing precedes it after it has been
  scheduled, and what follows it is the placeholder only (drawing the pattern and the one
  frame that points to the pattern buffer, sized by the configured format).
\<close>

theorem format_change_exits_loop:
  "(FormatChangeDetected X props crd \<longrightarrow>
      CaptureIteration X props crd s =
        (Break, emit [SourceUpdate] (s\<lparr>currentCardFrame := currentCardFrame s XOR 1\<rparr>)) \<and>
      CaptureLoop X props ((True, crd) # rest) s =
        Some (emit [SourceUpdate] (s\<lparr>currentCardFrame := currentCardFrame s XOR 1\<rparr>))) \<and>
   (CaptureThread X props (Some c0) trace s0 = Some s' \<longrightarrow>
      (\<exists>evs pat. sink s' = sink s0 @ evs @ pat \<and> (\<forall>e \<in> set pat. isPlaceholderEvent e) \<and>
         (SourceUpdate \<notin> set evs \<or>
          (\<exists>pre. evs = pre @ [SourceUpdate] \<and> SourceUpdate \<notin> set pre))))"
proof (intro conjI impI)
  assume f: "FormatChangeDetected X props crd"
  then show "CaptureIteration X props crd s =
        (Break, emit [SourceUpdate] (s\<lparr>currentCardFrame := currentCardFrame s XOR 1\<rparr>))"
    by (rule CaptureIteration_format_change)
  from f show "CaptureLoop X props ((True, crd) # rest) s =
        Some (emit [SourceUpdate] (s\<lparr>currentCardFrame := currentCardFrame s XOR 1\<rparr>))"
    by (simp add: CaptureIteration_format_change)
next
  assume t: "CaptureThread X props (Some c0) trace s0 = Some s'"
  then obtain s1 where l: "CaptureLoop X props trace (CaptureThread_setup X props c0 s0) = Some s1"
    and s': "s' = GenerateTestPattern X (videoFormat props) (pixelFormat props)
                    NTV2_TestPatt_Black s1"
    by (auto simp add: CaptureThread_def split: option.splits)
  obtain ev where su: "sink (CaptureThread_setup X props c0 s0) = sink s0 @ [ev]"
    and ne: "ev \<noteq> SourceUpdate"
    using setup_sink by blast
  obtain evs where sk: "sink s1 = sink (CaptureThread_setup X props c0 s0) @ evs"
    and u: "SourceUpdate \<notin> set evs \<or>
            (\<exists>pre. evs = pre @ [SourceUpdate] \<and> SourceUpdate \<notin> set pre)"
    using CaptureLoop_updates [OF l] by blast
  obtain pat where pt: "sink s' = sink s1 @ pat" and ph: "\<forall>e \<in> set pat. isPlaceholderEvent e"
    unfolding s' using GenerateTestPattern_placeholder by blast
  have eq: "sink s' = sink s0 @ (ev # evs) @ pat"
    using su sk pt by simp
  from u have "SourceUpdate \<notin> set (ev # evs) \<or>
          (\<exists>pre. ev # evs = pre @ [SourceUpdate] \<and> SourceUpdate \<notin> set pre)"
  proof
    assume "SourceUpdate \<notin> set evs"
    with ne show ?thesis by auto
  next
    assume "\<exists>pre. evs = pre @ [SourceUpdate] \<and> SourceUpdate \<notin> set pre"
    then obtain pre where p: "evs = pre @ [SourceUpdate]" "SourceUpdate \<notin> set pre" by blast
    then have "ev # evs = (ev # pre) @ [SourceUpdate]" "SourceUpdate \<notin> set (ev # pre)"
      using ne by auto
    then show ?thesis by blast
  qed
  with eq ph show "\<exists>evs pat. sink s' = sink s0 @ evs @ pat \<and>
         (\<forall>e \<in> set pat. isPlaceholderEvent e) \<and>
         (SourceUpdate \<notin> set evs \<or>
          (\<exists>pre. evs = pre @ [SourceUpdate] \<and> SourceUpdate \<notin> set pre))"
    by blast
qed

text \<open>
  C2 as stated fails on the placeholder that follows the loop: with auto-detect on and the
  live format changed from 720p to a 1920 by 1080 format, the reconfiguration is scheduled,
  and after it the sink receives a video frame of 1280 by 720, the size of the stale
  configured format.
\<close>

theorem format_change_counterexample:
  "FormatChangeDetected exampleDeps (exampleProps True)
     (exampleCard ''KONA 5'' (NTV2_FORMAT_OTHER 7) 8192 4194304 4177920 noVPID) \<and>
   map_option sink
     (CaptureThread exampleDeps (exampleProps True)
        (Some (exampleCard ''KONA 5'' NTV2_FORMAT_720p_5994 0 4194304 4177920 noVPID))
        [(True, exampleCard ''KONA 5'' (NTV2_FORMAT_OTHER 7) 8192 4194304 4177920 noVPID)]
        (exampleState AudioOffsets_init)) =
     Some [SetInputFrame 0 1, SourceUpdate,
           DrawTestPattern NTV2_TestPatt_Black 1280 720 NTV2_FBF_8BIT_YCBCR,
           OutputVideo \<lparr>width = 1280, height = 720, format = NTV2_FBF_8BIT_YCBCR,
                        data0 = TestPatternData, linesize0 = 2560\<rparr>] \<and>
   MakeFormatDesc exampleDeps (videoFormat (exampleProps True)) (pixelFormat (exampleProps True)) =
     \<lparr>GetRasterWidth = 1280, GetRasterHeight = 720, GetBytesPerRow = 2560,
      GetTotalRasterBytes = 1843200\<rparr> \<and>
   MakeFormatDesc exampleDeps
     (LiveFormat exampleDeps (exampleProps True)
        (exampleCard ''KONA 5'' (NTV2_FORMAT_OTHER 7) 8192 4194304 4177920 noVPID))
     (pixelFormat (exampleProps True)) =
     \<lparr>GetRasterWidth = 1920, GetRasterHeight = 1080, GetBytesPerRow = 3840,
      GetTotalRasterBytes = 4147200\<rparr>"
proof -
  let ?c1 = "exampleCard ''KONA 5'' (NTV2_FORMAT_OTHER 7) 8192 4194304 4177920 noVPID"
  have f: "FormatChangeDetected exampleDeps (exampleProps True) ?c1"
    by (simp add: FormatChangeDetected_def DeviceLost_def ProbedFormat_def LiveFormat_def)
  have pp: "PatternVideoFormat NTV2_FORMAT_720p_5994 = NTV2_FORMAT_720p_5994"
    "PatternPixelFormat exampleDeps NTV2_FBF_8BIT_YCBCR = NTV2_FBF_8BIT_YCBCR"
    by (simp_all add: PatternVideoFormat_def PatternPixelFormat_def)
  have d: "exampleDesc NTV2_FORMAT_720p_5994 NTV2_FBF_8BIT_YCBCR =
     \<lparr>GetRasterWidth = 1280, GetRasterHeight = 720, GetBytesPerRow = 2560,
      GetTotalRasterBytes = 1843200\<rparr>"
    "exampleDesc (NTV2_FORMAT_OTHER 7) NTV2_FBF_8BIT_YCBCR =
     \<lparr>GetRasterWidth = 1920, GetRasterHeight = 1080, GetBytesPerRow = 3840,
      GetTotalRasterBytes = 4147200\<rparr>"
    by (simp_all add: exampleDesc_def)
  have su: "sink (CaptureThread_setup exampleDeps (exampleProps True)
              (exampleCard ''KONA 5'' NTV2_FORMAT_720p_5994 0 4194304 4177920 noVPID)
              (exampleState AudioOffsets_init)) = [SetInputFrame 0 1]"
    "mTestPattern (CaptureThread_setup exampleDeps (exampleProps True)
              (exampleCard ''KONA 5'' NTV2_FORMAT_720p_5994 0 4194304 4177920 noVPID)
              (exampleState AudioOffsets_init)) = 0"
    by (simp_all add: CaptureThread_setup_def ResetVideoBuffer_def Let_def emit_def)
  have t: "map_option sink
     (CaptureThread exampleDeps (exampleProps True)
        (Some (exampleCard ''KONA 5'' NTV2_FORMAT_720p_5994 0 4194304 4177920 noVPID))
        [(True, ?c1)] (exampleState AudioOffsets_init)) =
     Some [SetInputFrame 0 1, SourceUpdate,
           DrawTestPattern NTV2_TestPatt_Black 1280 720 NTV2_FBF_8BIT_YCBCR,
           OutputVideo \<lparr>width = 1280, height = 720, format = NTV2_FBF_8BIT_YCBCR,
                        data0 = TestPatternData, linesize0 = 2560\<rparr>]"
    by (simp add: CaptureThread_def CaptureIteration_format_change [OF f]
        GenerateTestPattern_sink pp d su emit_def PatternFrame_def Let_def)
  have l: "LiveFormat exampleDeps (exampleProps True) ?c1 = NTV2_FORMAT_OTHER 7"
    by (simp add: LiveFormat_def ProbedFormat_def)
  from f t show ?thesis by (simp add: d l)
qed

text \<open>
  The change is detected in the first pass; the second element of the trace is never
  looked at.
\<close>

theorem format_change_exits_loop_witness:
  "FormatChangeDetected exampleDeps (exampleProps True)
     (exampleCard ''KONA 5'' (NTV2_FORMAT_OTHER 7) 8192 4194304 4177920 noVPID) \<and>
   CaptureLoop exampleDeps (exampleProps True)
     [(True, exampleCard ''KONA 5'' (NTV2_FORMAT_OTHER 7) 8192 4194304 4177920 noVPID),
      (True, exampleCard ''KONA 5'' (NTV2_FORMAT_OTHER 7) 16384 4194304 4177920 noVPID)]
     (exampleState AudioOffsets_init) =
     Some (emit [SourceUpdate] ((exampleState AudioOffsets_init)\<lparr>currentCardFrame := 0\<rparr>)) \<and>
   (\<exists>s'. CaptureThread exampleDeps (exampleProps True)
        (Some (exampleCard ''KONA 5'' NTV2_FORMAT_720p_5994 0 4194304 4177920 noVPID))
        [(True, exampleCard ''KONA 5'' (NTV2_FORMAT_OTHER 7) 8192 4194304 4177920 noVPID)]
        (exampleState AudioOffsets_init) = Some s' \<and>
      (\<exists>evs pat. sink s' = evs @ pat \<and> (\<forall>e \<in> set pat. isPlaceholderEvent e) \<and>
         (SourceUpdate \<notin> set evs \<or>
          (\<exists>pre. evs = pre @ [SourceUpdate] \<and> SourceUpdate \<notin> set pre))))"
proof -
  let ?c0 = "exampleCard ''KONA 5'' NTV2_FORMAT_720p_5994 0 4194304 4177920 noVPID"
  let ?c1 = "exampleCard ''KONA 5'' (NTV2_FORMAT_OTHER 7) 8192 4194304 4177920 noVPID"
  let ?c2 = "exampleCard ''KONA 5'' (NTV2_FORMAT_OTHER 7) 16384 4194304 4177920 noVPID"
  let ?s = "exampleState AudioOffsets_init"
  have f: "FormatChangeDetected exampleDeps (exampleProps True) ?c1"
    by (simp add: FormatChangeDetected_def DeviceLost_def ProbedFormat_def LiveFormat_def)
  have "\<exists>e \<in> set [(True, ?c1)]. LoopExits exampleDeps (exampleProps True) e"
    using f by (simp add: LoopExits_def)
  then obtain s1 where "CaptureLoop exampleDeps (exampleProps True) [(True, ?c1)]
      (CaptureThread_setup exampleDeps (exampleProps True) ?c0 ?s) = Some s1"
    using CaptureLoop_exits by blast
  then obtain s' where t: "CaptureThread exampleDeps (exampleProps True) (Some ?c0)
      [(True, ?c1)] ?s = Some s'"
    by (simp add: CaptureThread_def)
  note a = format_change_exits_loop [where X = exampleDeps and props = "exampleProps True"
      and crd = ?c1 and s = ?s and rest = "[(True, ?c2)]" and ?c0.0 = ?c0
      and trace = "[(True, ?c1)]" and ?s0.0 = ?s and s' = s']
  from a f have 1: "CaptureLoop exampleDeps (exampleProps True) [(True, ?c1), (True, ?c2)] ?s =
     Some (emit [SourceUpdate] (?s\<lparr>currentCardFrame := 0\<rparr>))"
    by simp
  from a t have 2: "\<exists>evs pat. sink s' = evs @ pat \<and> (\<forall>e \<in> set pat. isPlaceholderEvent e) \<and>
         (SourceUpdate \<notin> set evs \<or>
          (\<exists>pre. evs = pre @ [SourceUpdate] \<and> SourceUpdate \<notin> set pre))"
    by simp
  from f 1 2 t show ?thesis by blast
qed

section \<open>Wire formats\<close>

text \<open>
  C9. For an input selection with no input source, \<^verbatim>\<open>ReadWireFormats\<close> returns false,
  leaves the video format, the pixel format and the identifier list as they were passed,
  and makes no call to the card: its only action is the log line that names the selection.
\<close>

theorem no_input_sources_fails_fast:
  assumes "IOSelectionToInputSources X io_select = []"
  shows "ReadWireFormats X crd device_id io_select vf pf vpid_list =
           (False, vf, pf, vpid_list, [LogNoInputSources io_select])"
  using assms by (simp add: ReadWireFormats_def)

text \<open>
  A selection without connectors.
\<close>

theorem no_input_sources_fails_fast_witness:
  "IOSelectionToInputSources exampleDeps (IOSelection_Other 0) = [] \<and>
   ReadWireFormats exampleDeps
     (exampleCard ''KONA 5'' NTV2_FORMAT_720p_5994 0 4194304 4177920 mixedVPID) 1
     (IOSelection_Other 0) NTV2_FORMAT_UNKNOWN NTV2_FBF_INVALID [] =
     (False, NTV2_FORMAT_UNKNOWN, NTV2_FBF_INVALID, [], [LogNoInputSources (IOSelection_Other 0)])"
proof -
  have h: "IOSelectionToInputSources exampleDeps (IOSelection_Other 0) = []"
    by (simp add: exampleSources_def)
  from no_input_sources_fails_fast [OF h] h show ?thesis by simp
qed

lemma ProbeInputSources_vpids:
  "fst (snd (ProbeInputSources X crd device_id srcs pf vpid_list)) =
     vpid_list @ SDIRecords X crd srcs"
proof (induction srcs arbitrary: pf vpid_list)
  case Nil
  then show ?case by simp
next
  case (Cons src rest)
  show ?case
    by (simp add: Let_def split_beta Cons.IH)
qed

lemma ReadWireFormats_SDI:
  assumes "IOSelectionToInputSources X io_select = initial_src # others"
    and "NTV2_INPUT_SOURCE_IS_SDI initial_src"
  shows "ReadWireFormats X crd device_id io_select vf pf vpid_list =
     (let probed = ProbeInputSources X crd device_id (initial_src # others) pf vpid_list;
          initial_channel = NTV2InputSourceToChannel X initial_src
      in (True,
          HandleSpecialCaseFormats X io_select
            (GetInputVideoFormat crd initial_src (Is3GLevelB crd initial_channel)) device_id,
          (case fst (snd probed) of
             [] \<Rightarrow> fst probed
           | vpid # further \<Rightarrow>
               if Sampling vpid = VPIDSampling_YUV_422 then NTV2_FBF_8BIT_YCBCR
               else if Sampling vpid = VPIDSampling_GBR_444 then NTV2_FBF_24BIT_BGR
               else fst probed),
          fst (snd probed),
          snd (snd probed) @ [CardWaitForInputVerticalInterrupt initial_channel,
                              CardGetInputVideoFormat initial_src]))"
  unfolding ReadWireFormats_def assms(1) list.case
  using assms(2) by (simp only: Let_def split_beta if_True)

text \<open>
  C6, amended. When the first input source of the selection is serial-digital, the
  resolver succeeds with the identifier list extended by the records read from the
  serial-digital sources, and the resolved pixel format is decided by the first record of
  that list: 8-bit YCbCr if it indicates 4:2:2, 24-bit BGR if it indicates 4:4:4 GBR, and
  otherwise, or with an empty list, whatever the probing of the sources left, the HDMI
  guess included.
\<close>

theorem vpid_pixel_format_precedence:
  assumes "IOSelectionToInputSources X io_select = initial_src # others"
    and "NTV2_INPUT_SOURCE_IS_SDI initial_src"
  shows "\<exists>vf' pf' evs.
     ReadWireFormats X crd device_id io_select vf pf vpid_list =
       (True, vf', pf', vpid_list @ SDIRecords X crd (initial_src # others), evs) \<and>
     pf' = (case vpid_list @ SDIRecords X crd (initial_src # others) of
              [] \<Rightarrow> fst (ProbeInputSources X crd device_id (initial_src # others) pf vpid_list)
            | vpid # further \<Rightarrow>
                if Sampling vpid = VPIDSampling_YUV_422 then NTV2_FBF_8BIT_YCBCR
                else if Sampling vpid = VPIDSampling_GBR_444 then NTV2_FBF_24BIT_BGR
                else fst (ProbeInputSources X crd device_id (initial_src # others) pf vpid_list))"
  unfolding ReadWireFormats_SDI [OF assms] Let_def ProbeInputSources_vpids
  by blast

lemma example_vpid_reads:
  "ReadChannelVPIDs exampleDeps (exampleCard name vf lastIn r w mixedVPID) 2 =
     (True, \<lparr>vpidA = 3, vpidB = 0, Sampling = VPIDSampling_Other 3\<rparr>)"
  "ch \<noteq> 2 \<Longrightarrow> ReadChannelVPIDs exampleDeps (exampleCard name vf lastIn r w mixedVPID) ch =
     (True, \<lparr>vpidA = 0, vpidB = 0, Sampling = VPIDSampling_YUV_422\<rparr>)"
  by (simp_all add: ReadChannelVPIDs_def mixedVPID_def exampleSampling_def)

text \<open>
  C6 as stated fails where a later record indicates 4:2:2 and the first does not: the two
  links of the selection report 4:2:0 and 4:2:2, and the invalid pixel format passed in
  comes back unchanged.
\<close>

theorem vpid_pixel_format_counterexample:
  "ReadWireFormats exampleDeps
     (exampleCard ''KONA 5'' NTV2_FORMAT_720p_5994 0 4194304 4177920 mixedVPID) 1
     IOSelection_SDI3_4 NTV2_FORMAT_UNKNOWN NTV2_FBF_INVALID [] =
     (True, NTV2_FORMAT_720p_5994, NTV2_FBF_INVALID,
      [\<lparr>vpidA = 3, vpidB = 0, Sampling = VPIDSampling_Other 3\<rparr>,
       \<lparr>vpidA = 0, vpidB = 0, Sampling = VPIDSampling_YUV_422\<rparr>],
      [CardEnableChannel 2, CardSetSDITransmitEnable 2 False,
       CardWaitForInputVerticalInterrupt 2, CardReadSDIInVPID 2,
       CardEnableChannel 3, CardSetSDITransmitEnable 3 False,
       CardWaitForInputVerticalInterrupt 3, CardReadSDIInVPID 3,
       CardWaitForInputVerticalInterrupt 2,
       CardGetInputVideoFormat (NTV2_INPUTSOURCE_SDI 3)])"
  by (simp add: ReadWireFormats_def exampleSources_def exampleChannel_def
      example_vpid_reads Let_def)

text \<open>
  Both links report 4:2:2: the 24-bit BGR passed in is replaced by 8-bit YCbCr.
\<close>

theorem vpid_pixel_format_precedence_witness:
  "IOSelectionToInputSources exampleDeps IOSelection_SDI1_2 =
     NTV2_INPUTSOURCE_SDI 1 # [NTV2_INPUTSOURCE_SDI 2] \<and>
   NTV2_INPUT_SOURCE_IS_SDI (NTV2_INPUTSOURCE_SDI 1) \<and>
   fst (snd (snd (ReadWireFormats exampleDeps
     (exampleCard ''KONA 5'' NTV2_FORMAT_720p_5994 0 4194304 4177920 mixedVPID) 1
     IOSelection_SDI1_2 NTV2_FORMAT_UNKNOWN NTV2_FBF_24BIT_BGR []))) = NTV2_FBF_8BIT_YCBCR"
proof -
  let ?c = "exampleCard ''KONA 5'' NTV2_FORMAT_720p_5994 0 4194304 4177920 mixedVPID"
  have h1: "IOSelectionToInputSources exampleDeps IOSelection_SDI1_2 =
     NTV2_INPUTSOURCE_SDI 1 # [NTV2_INPUTSOURCE_SDI 2]"
    by (simp add: exampleSources_def)
  have h2: "NTV2_INPUT_SOURCE_IS_SDI (NTV2_INPUTSOURCE_SDI 1)" by simp
  have r: "SDIRecords exampleDeps ?c (NTV2_INPUTSOURCE_SDI 1 # [NTV2_INPUTSOURCE_SDI 2]) =
      [\<lparr>vpidA = 0, vpidB = 0, Sampling = VPIDSampling_YUV_422\<rparr>,
       \<lparr>vpidA = 0, vpidB = 0, Sampling = VPIDSampling_YUV_422\<rparr>]"
    by (simp add: exampleChannel_def example_vpid_reads)
  from vpid_pixel_format_precedence [OF h1 h2, of ?c 1 NTV2_FORMAT_UNKNOWN NTV2_FBF_24BIT_BGR "[]"]
  have "fst (snd (snd (ReadWireFormats exampleDeps ?c 1 IOSelection_SDI1_2 NTV2_FORMAT_UNKNOWN
          NTV2_FBF_24BIT_BGR []))) = NTV2_FBF_8BIT_YCBCR"
    unfolding r by auto
  with h1 h2 show ?thesis by blast
qed

section \<open>Updating a session\<close>

lemma fold_acquire:
  "(fold (\<lambda>ch m. m(ch \<mapsto> owner)) chans m) c = (if c \<in> set chans then Some owner else m c)"
  by (induction chans arbitrary: m) auto

lemma fold_release:
  "(fold (\<lambda>ch m. m(ch := None)) chans m) c = (if c \<in> set chans then None else m c)"
  by (induction chans arbitrary: m) auto

lemma Acquire_owned:
  assumes "AcquireInputSelection X io d owner e = (True, e')"
  shows "\<forall>ch \<in> set (SelectionChannels X io). leases e' ch = Some owner"
  using assms
  by (auto simp add: AcquireInputSelection_def Let_def fold_acquire split: if_splits)

lemma Release_owned:
  assumes "\<forall>ch \<in> set (SelectionChannels X io). leases e ch = Some owner"
  shows "fst (ReleaseInputSelection X io d owner e) \<and>
         (\<forall>ch \<in> set (SelectionChannels X io).
            leases (snd (ReleaseInputSelection X io d owner e)) ch = None)"
  using assms
  by (auto simp add: ReleaseInputSelection_def Let_def fold_release list_all_iff)

lemma Deactivate_fields [simp]:
  "initialized (Deactivate w) = initialized w"
  "cardManager (Deactivate w) = cardManager w"
  "calls (Deactivate w) = calls w @ [CallDeactivate]"
  "mSourceProps (ajaSource (Deactivate w)) = mSourceProps (ajaSource w)"
  "mSourceName (ajaSource (Deactivate w)) = mSourceName (ajaSource w)"
  "mCardID (ajaSource (Deactivate w)) = mCardID (ajaSource w)"
  "mIsCapturing (ajaSource (Deactivate w)) = False"
  "mCaptureThread (ajaSource (Deactivate w)) = None"
  by (simp_all add: Deactivate_def)

lemma Activate_fields [simp]:
  "initialized (Activate b w) = initialized w"
  "cardManager (Activate b w) = cardManager w"
  "calls (Activate b w) = calls w @ [CallActivate b]"
  "mSourceProps (ajaSource (Activate b w)) = mSourceProps (ajaSource w)"
  by (simp_all add: Activate_def Let_def)

lemma ReleasePreviousCard_fields:
  "ReleasePreviousCard X want cur cprops io w = (w', io') \<Longrightarrow>
     initialized w' = initialized w \<and> calls w' = calls w \<and>
     mSourceProps (ajaSource w') = mSourceProps (ajaSource w) \<and>
     mSourceName (ajaSource w') = mSourceName (ajaSource w) \<and>
     mIsCapturing (ajaSource w') = mIsCapturing (ajaSource w) \<and>
     mCaptureThread (ajaSource w') = mCaptureThread (ajaSource w) \<and>
     cardManager w' want = cardManager w want \<and>
     (io' = io \<or> io' = IOSelection_Invalid)"
  by (auto simp add: ReleasePreviousCard_def Let_def split: if_splits option.splits prod.splits)



lemma UpdateOnCard_result:
  "UpdateOnCard X settings crd cardEntry cprops io w =
     (let want_props = WantProps X crd settings io;
          owner = mSourceName (ajaSource w);
          w1 = w\<lparr>ajaSource := (ajaSource w)\<lparr>mCardID := kUIPropDevice settings,
                                             mDeviceIndex := GetCardIndex cardEntry\<rparr>\<rparr>;
          e1 = (if ioSelect want_props \<noteq> ioSelect cprops
                then snd (ReleaseInputSelection X (ioSelect cprops) (deviceID cprops)
                            owner cardEntry)
                else cardEntry);
          acq = AcquireInputSelection X (ioSelect want_props) (deviceID want_props) owner e1;
          w2 = setCardEntry (kUIPropDevice settings) (snd acq) w1;
          rw = ReadWireFormats X crd (deviceID want_props) (ioSelect want_props)
                 (videoFormat want_props) (pixelFormat want_props) (vpids want_props);
          w3 = logCalls (map WireProbe (snd (snd (snd (snd rw))))) w2;
          released = snd (ReleaseInputSelection X (ioSelect want_props) (deviceID cprops)
                            owner (snd acq));
          want1 = want_props\<lparr>vpids := fst (snd (snd (snd rw)))\<rparr>;
          want2 = (if kUIPropVideoFormatSelect settings = kAutoDetect
                   then want1\<lparr>videoFormat := fst (snd rw)\<rparr> else want1);
          want3 = (if kUIPropPixelFormatSelect settings = kAutoDetect
                   then want2\<lparr>pixelFormat := fst (snd (snd rw))\<rparr> else want2)
      in if \<not> fst acq then (AcquireFailed, w2)
         else if \<not> fst rw
         then (ReadWireFormatsFailed, setCardEntry (kUIPropDevice settings) released w3)
         else if videoFormat want3 = NTV2_FORMAT_UNKNOWN \<or> pixelFormat want3 = NTV2_FBF_INVALID
         then (UnknownFormats, setCardEntry (kUIPropDevice settings) released w3)
         else (Updated, ApplyProps X want3 w3))"
  by (simp add: UpdateOnCard_def Let_def split_beta)

lemma setCardEntry_fields [simp]:
  "initialized (setCardEntry c e w) = initialized w"
  "calls (setCardEntry c e w) = calls w"
  "ajaSource (setCardEntry c e w) = ajaSource w"
  "cardManager (setCardEntry c e w) c = Some e"
  by (simp_all add: setCardEntry_def)

lemma logCalls_fields [simp]:
  "initialized (logCalls evs w) = initialized w"
  "calls (logCalls evs w) = calls w @ evs"
  "ajaSource (logCalls evs w) = ajaSource w"
  "cardManager (logCalls evs w) = cardManager w"
  by (simp_all add: logCalls_def)

lemma UpdateOnCard_aborted:
  assumes "UpdateOnCard X settings crd cardEntry cprops io w = (r, w')"
    and "r = ReadWireFormatsFailed \<or> r = UnknownFormats"
  shows "mSourceProps (ajaSource w') = mSourceProps (ajaSource w) \<and>
         mIsCapturing (ajaSource w') = mIsCapturing (ajaSource w) \<and>
         mCaptureThread (ajaSource w') = mCaptureThread (ajaSource w) \<and>
         initialized w' = initialized w \<and>
         (\<exists>probes. calls w' = calls w @ map WireProbe probes) \<and>
         (\<exists>e'. cardManager w' (kUIPropDevice settings) = Some e' \<and>
               (\<forall>ch \<in> set (SelectionChannels X (ioSelect (WantProps X crd settings io))).
                  leases e' ch = None))"
proof -
  let ?want = "WantProps X crd settings io"
  let ?owner = "mSourceName (ajaSource w)"
  let ?e1 = "if ioSelect ?want \<noteq> ioSelect cprops
             then snd (ReleaseInputSelection X (ioSelect cprops) (deviceID cprops) ?owner cardEntry)
             else cardEntry"
  let ?acq = "AcquireInputSelection X (ioSelect ?want) (deviceID ?want) ?owner ?e1"
  from assms have a: "fst ?acq"
    by (auto simp add: UpdateOnCard_result Let_def split: if_splits)
  then have "?acq = (True, snd ?acq)" by (cases ?acq) simp
  then have "\<forall>ch \<in> set (SelectionChannels X (ioSelect ?want)). leases (snd ?acq) ch = Some ?owner"
    by (rule Acquire_owned)
  then have rel: "\<forall>ch \<in> set (SelectionChannels X (ioSelect ?want)).
     leases (snd (ReleaseInputSelection X (ioSelect ?want) (deviceID cprops) ?owner (snd ?acq))) ch
       = None"
    using Release_owned by blast
  from assms a rel show ?thesis
    by (auto simp add: UpdateOnCard_result Let_def split: if_splits)
qed




lemma afterCardCheck_fields:
  "cardManager (afterCardCheck settings w) = cardManager w"
  "mSourceProps (ajaSource (afterCardCheck settings w)) = mSourceProps (ajaSource w)"
  "mSourceName (ajaSource (afterCardCheck settings w)) = mSourceName (ajaSource w)"
  "calls (afterCardCheck settings w) =
     calls w @ (if kUIPropDevice settings \<noteq> mCardID (ajaSource w) then [CallDeactivate] else [])"
  "initialized (afterCardCheck settings w) =
     (initialized w \<and> kUIPropDevice settings = mCardID (ajaSource w))"
  "mIsCapturing (ajaSource (afterCardCheck settings w)) =
     (mIsCapturing (ajaSource w) \<and> kUIPropDevice settings = mCardID (ajaSource w))"
  "mCaptureThread (ajaSource (afterCardCheck settings w)) =
     (if kUIPropDevice settings \<noteq> mCardID (ajaSource w) then None
      else mCaptureThread (ajaSource w))"
  by (simp_all add: afterCardCheck_def Deactivate_def)

lemma aja_source_update_unfold:
  "aja_source_update X settings w =
     (case cardManager w (kUIPropDevice settings) of
        None \<Rightarrow> (CardEntryNotFound, afterCardCheck settings w)
      | Some cardEntry \<Rightarrow>
          (case GetCard cardEntry of
             None \<Rightarrow> (DeviceNotOpen, afterCardCheck settings w)
           | Some crd \<Rightarrow>
               if \<not> IsOpen crd then (DeviceNotOpen, afterCardCheck settings w)
               else if GetModelName crd = ''(Not Found)''
               then (DeviceDisconnected, afterCardCheck settings w)
               else
                 (let rp = ReleasePreviousCard X (kUIPropDevice settings) (mCardID (ajaSource w))
                             (mSourceProps (ajaSource w)) (kUIPropInput settings)
                             ((afterCardCheck settings w)
                                \<lparr>ajaSource :=
                                   (ajaSource (afterCardCheck settings w))\<lparr>mCard := Some crd\<rparr>\<rparr>)
                  in if snd rp = IOSelection_Invalid then (InvalidIOSelection, fst rp)
                     else UpdateOnCard X settings crd cardEntry (mSourceProps (ajaSource w))
                            (snd rp) (fst rp))))"
  by (simp add: aja_source_update_def afterCardCheck_def Deactivate_def Let_def split_beta
      split: option.splits)

lemma aja_source_update_cases:
  assumes "aja_source_update X settings w = (r, w')"
  shows "(r \<in> {CardEntryNotFound, DeviceNotOpen, DeviceDisconnected} \<and>
          w' = afterCardCheck settings w) \<or>
         (\<exists>cardEntry crd w3 io'.
            cardManager w (kUIPropDevice settings) = Some cardEntry \<and>
            GetCard cardEntry = Some crd \<and>
            ReleasePreviousCard X (kUIPropDevice settings) (mCardID (ajaSource w))
              (mSourceProps (ajaSource w)) (kUIPropInput settings)
              ((afterCardCheck settings w)
                 \<lparr>ajaSource := (ajaSource (afterCardCheck settings w))\<lparr>mCard := Some crd\<rparr>\<rparr>)
              = (w3, io') \<and>
            (if io' = IOSelection_Invalid then r = InvalidIOSelection \<and> w' = w3
             else io' = kUIPropInput settings \<and>
                  UpdateOnCard X settings crd cardEntry (mSourceProps (ajaSource w)) io' w3
                    = (r, w')))"
proof (cases "cardManager w (kUIPropDevice settings)")
  case None
  with assms show ?thesis by (simp add: aja_source_update_unfold)
next
  case (Some cardEntry)
  show ?thesis
  proof (cases "GetCard cardEntry")
    case None
    with assms Some show ?thesis by (simp add: aja_source_update_unfold)
  next
    case crd: (Some crd)
    show ?thesis
    proof (cases "\<not> IsOpen crd \<or> GetModelName crd = ''(Not Found)''")
      case True
      with assms Some crd show ?thesis
        by (auto simp add: aja_source_update_unfold split: if_splits)
    next
      case False
      let ?w2 = "(afterCardCheck settings w)
                   \<lparr>ajaSource := (ajaSource (afterCardCheck settings w))\<lparr>mCard := Some crd\<rparr>\<rparr>"
      obtain w3 io' where rp:
        "ReleasePreviousCard X (kUIPropDevice settings) (mCardID (ajaSource w))
            (mSourceProps (ajaSource w)) (kUIPropInput settings) ?w2 = (w3, io')"
        by (cases "ReleasePreviousCard X (kUIPropDevice settings) (mCardID (ajaSource w))
            (mSourceProps (ajaSource w)) (kUIPropInput settings) ?w2") simp
      from ReleasePreviousCard_fields [OF rp]
      have io: "io' = kUIPropInput settings \<or> io' = IOSelection_Invalid" by simp
      from assms Some crd False rp io show ?thesis
        by (auto simp add: aja_source_update_unfold Let_def split: if_splits)
    qed
  qed
qed

lemma ReadWireFormats_ok:
  "fst (ReadWireFormats X crd d io vf pf vl) = (IOSelectionToInputSources X io \<noteq> [])"
  by (simp add: ReadWireFormats_def Let_def split_beta split: list.splits)

lemma Acquire_Release_leases:
  assumes "fst (AcquireInputSelection X io d owner e)"
  shows "leases (snd (ReleaseInputSelection X io d' owner
                        (snd (AcquireInputSelection X io d owner e)))) ch =
           (if ch \<in> set (SelectionChannels X io) then None else leases e ch)"
proof -
  let ?acq = "AcquireInputSelection X io d owner e"
  from assms have "?acq = (True, snd ?acq)" by (cases ?acq) simp
  then have own: "\<forall>c \<in> set (SelectionChannels X io). leases (snd ?acq) c = Some owner"
    by (rule Acquire_owned)
  from assms have l: "leases (snd ?acq) =
      fold (\<lambda>ch m. m(ch \<mapsto> owner)) (SelectionChannels X io) (leases e)"
    by (auto simp add: AcquireInputSelection_def Let_def split: if_splits)
  from own show ?thesis
    by (simp add: ReleaseInputSelection_def Let_def list_all_iff fold_release l fold_acquire)
qed

lemma ReleasePreviousCard_kept:
  assumes "want = cur \<or>
           (case cardManager w cur of
              None \<Rightarrow> True
            | Some prev \<Rightarrow>
                \<not> fst (ReleaseInputSelection X (ioSelect cprops) (deviceID cprops)
                         (mSourceName (ajaSource w)) prev))"
  shows "snd (ReleasePreviousCard X want cur cprops io w) = io"
  using assms
  by (auto simp add: ReleasePreviousCard_def Let_def split_beta split: option.splits)

lemma ReleasePreviousCard_released:
  assumes "snd (ReleasePreviousCard X want cur cprops io w) = io" and "io \<noteq> IOSelection_Invalid"
  shows "want = cur \<or>
           (case cardManager w cur of
              None \<Rightarrow> True
            | Some prev \<Rightarrow>
                \<not> fst (ReleaseInputSelection X (ioSelect cprops) (deviceID cprops)
                         (mSourceName (ajaSource w)) prev))"
  using assms
  by (auto simp add: ReleasePreviousCard_def Let_def split_beta split: option.splits if_splits)

lemma UpdateOnCard_fails:
  assumes "fst (AcquireInputSelection X (ioSelect (WantProps X crd settings (kUIPropInput settings)))
                  (deviceID (WantProps X crd settings (kUIPropInput settings)))
                  (mSourceName (ajaSource w)) (EntryAtAcquire X settings w0 cardEntry crd))"
    and "ResolutionFails X settings crd"
    and "mSourceProps (ajaSource w0) = cprops" and "mSourceName (ajaSource w0) = mSourceName (ajaSource w)"
  shows "\<exists>w' e'. UpdateOnCard X settings crd cardEntry cprops (kUIPropInput settings) w =
           (if IOSelectionToInputSources X
                 (ioSelect (WantProps X crd settings (kUIPropInput settings))) = []
            then ReadWireFormatsFailed else UnknownFormats, w') \<and>
           cardManager w' (kUIPropDevice settings) = Some e' \<and>
           (\<forall>ch. leases e' ch =
              (if ch \<in> set (SelectionChannels X
                               (ioSelect (WantProps X crd settings (kUIPropInput settings))))
               then None else leases (EntryAtAcquire X settings w0 cardEntry crd) ch))"
proof -
  let ?want = "WantProps X crd settings (kUIPropInput settings)"
  let ?e1 = "EntryAtAcquire X settings w0 cardEntry crd"
  let ?acq = "AcquireInputSelection X (ioSelect ?want) (deviceID ?want) (mSourceName (ajaSource w)) ?e1"
  have e1: "?e1 = (if ioSelect ?want \<noteq> ioSelect cprops
                then snd (ReleaseInputSelection X (ioSelect cprops) (deviceID cprops)
                            (mSourceName (ajaSource w)) cardEntry)
                else cardEntry)"
    using assms(3,4) by (simp add: EntryAtAcquire_def Let_def)
  note rel = Acquire_Release_leases [OF assms(1), of "deviceID cprops"]
  from assms(2) show ?thesis
    using assms(1) rel unfolding e1
    by (auto simp add: UpdateOnCard_result Let_def ResolutionFails_def ResolvedProps_def
        split_beta ReadWireFormats_ok)
qed


text \<open>
  C5. When an update call has got as far as wire-format resolution and the resolution fails,
  the call ends there, on the failure of \<^verbatim>\<open>ReadWireFormats\<close> when the selection has no
  input sources and on the unknown formats otherwise: the session's stored properties are
  those it had before the call, the call never activates the session (the capturing flag
  and the thread are as they were, or cleared where the card ID differed), and in the lease
  table of the wanted card every channel of the wanted input selection is free, every other
  channel being as the acquisition found it. Conversely, a call that ends on one of these
  two failures has got as far as the resolution, and the resolution has failed.
\<close>

theorem aborted_update_releases_lease:
  "(ReachesResolution X settings w cardEntry crd \<and> ResolutionFails X settings crd \<longrightarrow>
      (\<exists>w' e'.
         aja_source_update X settings w =
           (if IOSelectionToInputSources X
                 (ioSelect (WantProps X crd settings (kUIPropInput settings))) = []
            then ReadWireFormatsFailed else UnknownFormats, w') \<and>
         mSourceProps (ajaSource w') = mSourceProps (ajaSource w) \<and>
         (\<exists>evs. calls w' = calls w @ evs \<and> (\<forall>b. CallActivate b \<notin> set evs)) \<and>
         mIsCapturing (ajaSource w') =
           (mIsCapturing (ajaSource w) \<and> kUIPropDevice settings = mCardID (ajaSource w)) \<and>
         mCaptureThread (ajaSource w') =
           (if kUIPropDevice settings \<noteq> mCardID (ajaSource w) then None
            else mCaptureThread (ajaSource w)) \<and>
         cardManager w' (kUIPropDevice settings) = Some e' \<and>
         (\<forall>ch. leases e' ch =
            (if ch \<in> set (SelectionChannels X
                             (ioSelect (WantProps X crd settings (kUIPropInput settings))))
             then None else leases (EntryAtAcquire X settings w cardEntry crd) ch)))) \<and>
   (fst (aja_source_update X settings w) \<in> {ReadWireFormatsFailed, UnknownFormats} \<longrightarrow>
      (\<exists>cardEntry crd. ReachesResolution X settings w cardEntry crd \<and>
         ResolutionFails X settings crd))"
proof (intro conjI impI)
  assume a: "ReachesResolution X settings w cardEntry crd \<and> ResolutionFails X settings crd"
  let ?want = "WantProps X crd settings (kUIPropInput settings)"
  let ?w1 = "afterCardCheck settings w"
  let ?w2 = "?w1\<lparr>ajaSource := (ajaSource ?w1)\<lparr>mCard := Some crd\<rparr>\<rparr>"
  let ?rp = "ReleasePreviousCard X (kUIPropDevice settings) (mCardID (ajaSource w))
               (mSourceProps (ajaSource w)) (kUIPropInput settings) ?w2"
  let ?tag = "if IOSelectionToInputSources X (ioSelect ?want) = []
              then ReadWireFormatsFailed else UnknownFormats"
  from a have ce: "cardManager w (kUIPropDevice settings) = Some cardEntry"
    and gc: "GetCard cardEntry = Some crd" and op: "IsOpen crd"
    and pr: "GetModelName crd \<noteq> ''(Not Found)''"
    and kept: "kUIPropDevice settings = mCardID (ajaSource w) \<or>
          (case cardManager w (mCardID (ajaSource w)) of
             None \<Rightarrow> True
           | Some prev \<Rightarrow>
               \<not> fst (ReleaseInputSelection X (ioSelect (mSourceProps (ajaSource w)))
                        (deviceID (mSourceProps (ajaSource w)))
                        (mSourceName (ajaSource w)) prev))"
    and valid: "kUIPropInput settings \<noteq> IOSelection_Invalid"
    and acq: "fst (AcquireInputSelection X (ioSelect ?want) (deviceID ?want)
                (mSourceName (ajaSource w)) (EntryAtAcquire X settings w cardEntry crd))"
    and fails: "ResolutionFails X settings crd"
    by (simp_all add: ReachesResolution_def Let_def)
  have w2: "cardManager ?w2 = cardManager w"
    "mSourceName (ajaSource ?w2) = mSourceName (ajaSource w)"
    by (simp_all add: afterCardCheck_fields)
  have io: "snd ?rp = kUIPropInput settings"
    by (rule ReleasePreviousCard_kept, unfold w2, rule kept)
  obtain w3 where rp: "?rp = (w3, kUIPropInput settings)"
    using io by (cases ?rp) simp
  note f = ReleasePreviousCard_fields [OF rp]
  have n3: "mSourceName (ajaSource w3) = mSourceName (ajaSource w)"
    using f by (simp add: afterCardCheck_fields)
  have acq3: "fst (AcquireInputSelection X (ioSelect ?want) (deviceID ?want)
                (mSourceName (ajaSource w3)) (EntryAtAcquire X settings w cardEntry crd))"
    using acq n3 by simp
  from UpdateOnCard_fails [OF acq3 fails refl n3 [symmetric]]
  obtain w' e' where
    uc: "UpdateOnCard X settings crd cardEntry (mSourceProps (ajaSource w))
           (kUIPropInput settings) w3 = (?tag, w')"
    and cm: "cardManager w' (kUIPropDevice settings) = Some e'"
    and ls: "\<forall>ch. leases e' ch =
              (if ch \<in> set (SelectionChannels X (ioSelect ?want))
               then None else leases (EntryAtAcquire X settings w cardEntry crd) ch)"
    by blast
  have up: "aja_source_update X settings w = (?tag, w')"
    using ce gc op pr rp valid uc by (simp add: aja_source_update_unfold Let_def)
  have tg: "?tag = ReadWireFormatsFailed \<or> ?tag = UnknownFormats" by simp
  note u = UpdateOnCard_aborted [OF uc tg]
  from u obtain probes where pc: "calls w' = calls w3 @ map WireProbe probes" by blast
  have c: "calls w' = calls w @
      ((if kUIPropDevice settings \<noteq> mCardID (ajaSource w) then [CallDeactivate] else []) @
       map WireProbe probes)"
    using pc f by (simp add: afterCardCheck_fields)
  have na: "\<forall>b. CallActivate b \<notin>
      set ((if kUIPropDevice settings \<noteq> mCardID (ajaSource w) then [CallDeactivate] else []) @
           map WireProbe probes)"
    by auto
  have 1: "mSourceProps (ajaSource w') = mSourceProps (ajaSource w)"
    using u f by (simp add: afterCardCheck_fields)
  have 2: "mIsCapturing (ajaSource w') =
       (mIsCapturing (ajaSource w) \<and> kUIPropDevice settings = mCardID (ajaSource w))"
    using u f by (simp add: afterCardCheck_fields)
  have 3: "mCaptureThread (ajaSource w') =
       (if kUIPropDevice settings \<noteq> mCardID (ajaSource w) then None
        else mCaptureThread (ajaSource w))"
    using u f by (simp add: afterCardCheck_fields)
  from up 1 2 3 cm ls c na
  show "\<exists>w' e'.
         aja_source_update X settings w = (?tag, w') \<and>
         mSourceProps (ajaSource w') = mSourceProps (ajaSource w) \<and>
         (\<exists>evs. calls w' = calls w @ evs \<and> (\<forall>b. CallActivate b \<notin> set evs)) \<and>
         mIsCapturing (ajaSource w') =
           (mIsCapturing (ajaSource w) \<and> kUIPropDevice settings = mCardID (ajaSource w)) \<and>
         mCaptureThread (ajaSource w') =
           (if kUIPropDevice settings \<noteq> mCardID (ajaSource w) then None
            else mCaptureThread (ajaSource w)) \<and>
         cardManager w' (kUIPropDevice settings) = Some e' \<and>
         (\<forall>ch. leases e' ch =
            (if ch \<in> set (SelectionChannels X (ioSelect ?want))
             then None else leases (EntryAtAcquire X settings w cardEntry crd) ch))"
    by blast
next
  assume r: "fst (aja_source_update X settings w) \<in> {ReadWireFormatsFailed, UnknownFormats}"
  obtain r0 w' where up: "aja_source_update X settings w = (r0, w')"
    by (cases "aja_source_update X settings w")
  with r have r0: "r0 = ReadWireFormatsFailed \<or> r0 = UnknownFormats" by simp
  let ?w1 = "afterCardCheck settings w"
  from aja_source_update_cases [OF up] r0
  obtain cardEntry crd w3 where
    ce: "cardManager w (kUIPropDevice settings) = Some cardEntry"
    and gc: "GetCard cardEntry = Some crd"
    and rp: "ReleasePreviousCard X (kUIPropDevice settings) (mCardID (ajaSource w))
              (mSourceProps (ajaSource w)) (kUIPropInput settings)
              (?w1\<lparr>ajaSource := (ajaSource ?w1)\<lparr>mCard := Some crd\<rparr>\<rparr>)
              = (w3, kUIPropInput settings)"
    and valid: "kUIPropInput settings \<noteq> IOSelection_Invalid"
    and uc: "UpdateOnCard X settings crd cardEntry (mSourceProps (ajaSource w))
               (kUIPropInput settings) w3 = (r0, w')"
    by (auto split: if_splits)
  let ?want = "WantProps X crd settings (kUIPropInput settings)"
  let ?w2 = "?w1\<lparr>ajaSource := (ajaSource ?w1)\<lparr>mCard := Some crd\<rparr>\<rparr>"
  have w2: "cardManager ?w2 = cardManager w"
    "mSourceName (ajaSource ?w2) = mSourceName (ajaSource w)"
    by (simp_all add: afterCardCheck_fields)
  from up ce gc r0 have op: "IsOpen crd" and pr: "GetModelName crd \<noteq> ''(Not Found)''"
    by (auto simp add: aja_source_update_unfold split: if_splits)
  have "snd (ReleasePreviousCard X (kUIPropDevice settings) (mCardID (ajaSource w))
              (mSourceProps (ajaSource w)) (kUIPropInput settings) ?w2) = kUIPropInput settings"
    using rp by simp
  from ReleasePreviousCard_released [OF this valid, unfolded w2]
  have kept: "kUIPropDevice settings = mCardID (ajaSource w) \<or>
          (case cardManager w (mCardID (ajaSource w)) of
             None \<Rightarrow> True
           | Some prev \<Rightarrow>
               \<not> fst (ReleaseInputSelection X (ioSelect (mSourceProps (ajaSource w)))
                        (deviceID (mSourceProps (ajaSource w)))
                        (mSourceName (ajaSource w)) prev))"
    .
  note f = ReleasePreviousCard_fields [OF rp]
  have n3: "mSourceName (ajaSource w3) = mSourceName (ajaSource w)"
    using f by (simp add: afterCardCheck_fields)
  from uc r0 have acq: "fst (AcquireInputSelection X (ioSelect ?want) (deviceID ?want)
                (mSourceName (ajaSource w)) (EntryAtAcquire X settings w cardEntry crd))"
    and fails: "ResolutionFails X settings crd"
    by (auto simp add: UpdateOnCard_result Let_def n3 EntryAtAcquire_def ResolutionFails_def
        ResolvedProps_def split_beta ReadWireFormats_ok split: if_splits)
  have "ReachesResolution X settings w cardEntry crd"
    using ce gc op pr kept valid acq by (simp add: ReachesResolution_def Let_def)
  with fails show "\<exists>cardEntry crd. ReachesResolution X settings w cardEntry crd \<and>
         ResolutionFails X settings crd"
    by blast
qed




lemma examplePlugin_fields [simp]:
  "initialized (examplePlugin init crd src) = init"
  "cardManager (examplePlugin init crd src) ''card0'' =
     Some \<lparr>GetCard = Some crd, GetCardIndex = 0, leases = Map.empty\<rparr>"
  "ajaSource (examplePlugin init crd src) = src"
  "calls (examplePlugin init crd src) = []"
  by (simp_all add: examplePlugin_def)

lemma exampleSource_fields [simp]:
  "mSourceName (exampleSource cardID props) = ''AJA Source''"
  "mCardID (exampleSource cardID props) = cardID"
  "mIsCapturing (exampleSource cardID props) = False"
  "mCaptureThread (exampleSource cardID props) = Some False"
  "mSourceProps (exampleSource cardID props) = props"
  by (simp_all add: exampleSource_def)

lemma exampleSettings_fields [simp]:
  "kUIPropDevice (exampleSettings v p) = ''card0''"
  "kUIPropInput (exampleSettings v p) = IOSelection_SDI1_2"
  "kUIPropVideoFormatSelect (exampleSettings v p) = v"
  "kUIPropPixelFormatSelect (exampleSettings v p) = p"
  "kUIPropSDITransport (exampleSettings v p) = kAutoDetect"
  "kUIPropSDITransport4K (exampleSettings v p) = SDITransport4K_TwoSampleInterleave"
  "kUIPropDeactivateWhenNotShowing (exampleSettings v p) = False"
  by (simp_all add: exampleSettings_def)

lemma example_WantProps:
  "WantProps exampleDeps (exampleCard name vf lastIn r w vp)
     (exampleSettings kAutoDetect kAutoDetect) IOSelection_SDI1_2 =
   \<lparr>deviceID = 1, ioSelect = IOSelection_SDI1_2, videoFormat = NTV2_FORMAT_UNKNOWN,
    pixelFormat = NTV2_FBF_INVALID, sdiTransport = SDITransport_Unknown,
    sdi4kTransport = SDITransport4K_TwoSampleInterleave, vpids = [],
    autoDetect = True, deactivateWhileNotShowing = False\<rparr>"
  by (simp add: WantProps_def Let_def)

lemma example_channels:
  "SelectionChannels exampleDeps IOSelection_SDI1_2 = [0, 1]"
  by (simp add: SelectionChannels_def exampleSources_def exampleChannel_def)

lemma example_no_signal:
  "ReadWireFormats exampleDeps
     (exampleCard ''KONA 5'' NTV2_FORMAT_UNKNOWN 0 4194304 4177920 noVPID) device_id
     IOSelection_SDI1_2 NTV2_FORMAT_UNKNOWN NTV2_FBF_INVALID [] =
     (True, NTV2_FORMAT_UNKNOWN, NTV2_FBF_INVALID, [],
      [CardEnableChannel 0, CardSetSDITransmitEnable 0 False,
       CardWaitForInputVerticalInterrupt 0, CardReadSDIInVPID 0,
       CardEnableChannel 1, CardSetSDITransmitEnable 1 False,
       CardWaitForInputVerticalInterrupt 1, CardReadSDIInVPID 1,
       CardWaitForInputVerticalInterrupt 0,
       CardGetInputVideoFormat (NTV2_INPUTSOURCE_SDI 1)])"
  by (simp add: ReadWireFormats_def exampleSources_def exampleChannel_def
      ReadChannelVPIDs_def noVPID_def Let_def)



lemma heldPlugin_fields [simp]:
  "initialized (heldPlugin crd src) = True"
  "cardManager (heldPlugin crd src) ''card0'' = Some (heldEntry crd)"
  "ajaSource (heldPlugin crd src) = src"
  "calls (heldPlugin crd src) = []"
  by (simp_all add: heldPlugin_def)

lemma heldEntry_fields [simp]:
  "GetCard (heldEntry crd) = Some crd"
  "leases (heldEntry crd) 0 = Some ''AJA Source''"
  "leases (heldEntry crd) (Suc 0) = Some ''AJA Source''"
  "leases (heldEntry crd) 2 = Some ''Other''"
  by (simp_all add: heldEntry_def)

text \<open>
  The session holds channels 0 and 1 of SDI 1 and 2; there is no signal and both formats are
  on auto-detect. The update ends on the unknown video format, channels 0 and 1 are free
  and channel 2 is still the other client's.
\<close>

theorem aborted_update_releases_lease_witness:
  "ReachesResolution exampleDeps (exampleSettings kAutoDetect kAutoDetect)
     (heldPlugin (exampleCard ''KONA 5'' NTV2_FORMAT_UNKNOWN 0 4194304 4177920 noVPID)
        (exampleSource ''card0'' (exampleProps True)))
     (heldEntry (exampleCard ''KONA 5'' NTV2_FORMAT_UNKNOWN 0 4194304 4177920 noVPID))
     (exampleCard ''KONA 5'' NTV2_FORMAT_UNKNOWN 0 4194304 4177920 noVPID) \<and>
   ResolutionFails exampleDeps (exampleSettings kAutoDetect kAutoDetect)
     (exampleCard ''KONA 5'' NTV2_FORMAT_UNKNOWN 0 4194304 4177920 noVPID) \<and>
   fst (aja_source_update exampleDeps (exampleSettings kAutoDetect kAutoDetect)
     (heldPlugin (exampleCard ''KONA 5'' NTV2_FORMAT_UNKNOWN 0 4194304 4177920 noVPID)
        (exampleSource ''card0'' (exampleProps True)))) = UnknownFormats \<and>
   mSourceProps (ajaSource
     (snd (aja_source_update exampleDeps (exampleSettings kAutoDetect kAutoDetect)
        (heldPlugin (exampleCard ''KONA 5'' NTV2_FORMAT_UNKNOWN 0 4194304 4177920 noVPID)
           (exampleSource ''card0'' (exampleProps True)))))) = exampleProps True \<and>
   (\<exists>e'. cardManager
       (snd (aja_source_update exampleDeps (exampleSettings kAutoDetect kAutoDetect)
        (heldPlugin (exampleCard ''KONA 5'' NTV2_FORMAT_UNKNOWN 0 4194304 4177920 noVPID)
           (exampleSource ''card0'' (exampleProps True))))) ''card0'' = Some e' \<and>
      leases e' 0 = None \<and> leases e' 1 = None \<and> leases e' 2 = Some ''Other'')"
proof -
  let ?c = "exampleCard ''KONA 5'' NTV2_FORMAT_UNKNOWN 0 4194304 4177920 noVPID"
  let ?S = "exampleSettings kAutoDetect kAutoDetect"
  let ?w = "heldPlugin ?c (exampleSource ''card0'' (exampleProps True))"
  let ?e = "heldEntry ?c"
  have ea: "EntryAtAcquire exampleDeps ?S ?w ?e ?c = ?e"
    by (simp add: EntryAtAcquire_def example_WantProps Let_def)
  have h1: "ReachesResolution exampleDeps ?S ?w ?e ?c"
    by (simp add: ReachesResolution_def ea example_WantProps example_channels
        AcquireInputSelection_def ChannelReady_def Let_def)
  have h2: "ResolutionFails exampleDeps ?S ?c"
    by (simp add: ResolutionFails_def ResolvedProps_def example_WantProps example_no_signal
        Let_def)
  have src: "IOSelectionToInputSources exampleDeps (ioSelect (WantProps exampleDeps ?c ?S
      (kUIPropInput ?S))) \<noteq> []"
    by (simp add: example_WantProps exampleSources_def)
  note t = aborted_update_releases_lease [where X = exampleDeps and settings = ?S and w = ?w
      and cardEntry = ?e and crd = ?c, THEN conjunct1, THEN mp, OF conjI [OF h1 h2]]
  from t obtain w' e' where
    up: "aja_source_update exampleDeps ?S ?w =
           (if IOSelectionToInputSources exampleDeps
                 (ioSelect (WantProps exampleDeps ?c ?S (kUIPropInput ?S))) = []
            then ReadWireFormatsFailed else UnknownFormats, w')"
    and sp: "mSourceProps (ajaSource w') = mSourceProps (ajaSource ?w)"
    and cm: "cardManager w' (kUIPropDevice ?S) = Some e'"
    and ls: "\<forall>ch. leases e' ch =
            (if ch \<in> set (SelectionChannels exampleDeps
                             (ioSelect (WantProps exampleDeps ?c ?S (kUIPropInput ?S))))
             then None else leases (EntryAtAcquire exampleDeps ?S ?w ?e ?c) ch)"
    by blast
  from up src have r: "fst (aja_source_update exampleDeps ?S ?w) = UnknownFormats"
    and w': "snd (aja_source_update exampleDeps ?S ?w) = w'"
    by simp_all
  from sp have p: "mSourceProps (ajaSource w') = exampleProps True" by simp
  from cm have cm': "cardManager w' ''card0'' = Some e'" by simp
  from ls have l: "leases e' 0 = None \<and> leases e' 1 = None \<and> leases e' 2 = Some ''Other''"
    unfolding ea by (simp add: example_WantProps example_channels)
  from h1 h2 r p cm' l show ?thesis unfolding w' by blast
qed





end
